theory Spec2Isabelle
  imports Main "HOL-Library.Word"
begin

section \<open>Python values and exceptions\<close>

text \<open>
  The repository is Python.  A value that flows through the adapters is one of the
  values a JSON document, an Avro row or a boto3 response can hold.  A \<open>bool\<close> is
  kept apart from an \<open>int\<close> because the two print differently, although Python
  makes \<open>bool\<close> a subclass of \<open>int\<close> (see \<open>isinstance_int\<close>).  The payload of a
  float (mantissa and binary exponent) is never inspected by the code under study.
  A text is a \<open>string\<close>, its characters standing for code points; the adapters never
  look inside a text.  A dict is an association list with string keys, looked up from
  the left.
\<close>

type_synonym byte = "8 word"

datatype pyval =
    PNone
  | PBool bool
  | PInt int
  | PFloat int int
  | PStr string
  | PList "pyval list"
  | PDict "(string \<times> pyval) list"

type_synonym pydict = "(string \<times> pyval) list"

text \<open>
  Exceptions are values.  Only subclasses of \<open>Exception\<close> are modelled.  The text is
  what \<open>str(e)\<close> gives, which is what an f-string interpolates.
\<close>

datatype exn_class =
    SchemaRegistryException
  | ClientError
  | ValueError
  | KeyError
  | TypeError
  | AttributeError
  | OtherException string

datatype exn = Exn exn_class string

fun exn_class_of :: "exn \<Rightarrow> exn_class" where
  "exn_class_of (Exn c m) = c"

fun exn_str :: "exn \<Rightarrow> string" where
  "exn_str (Exn c m) = m"

text \<open>Sequencing of statements inside a \<open>try\<close> block: the first exception ends the block.\<close>

fun and_then :: "exn + 'a \<Rightarrow> ('a \<Rightarrow> exn + 'b) \<Rightarrow> exn + 'b" where
  "and_then (Inl e) f = Inl e"
| "and_then (Inr x) f = f x"

text \<open>\<open>isinstance(v, int)\<close>: true of ints and, as in Python, of bools.\<close>

fun isinstance_int :: "pyval \<Rightarrow> bool" where
  "isinstance_int (PInt i) = True"
| "isinstance_int (PBool b) = True"
| "isinstance_int v = False"

text \<open>The integer an int or a bool compares as (\<open>True\<close> is 1, \<open>False\<close> is 0).\<close>

fun int_value :: "pyval \<Rightarrow> int" where
  "int_value (PInt i) = i"
| "int_value (PBool b) = (if b then 1 else 0)"
| "int_value v = 0"

text \<open>\<open>repr\<close> of a string key, as \<open>str(KeyError(k))\<close> shows it.\<close>

definition key_repr :: "string \<Rightarrow> string" where
  "key_repr k = [CHR 0x27] @ k @ [CHR 0x27]"

text \<open>\<open>d[k]\<close> on a dict.\<close>

definition dict_getitem :: "pydict \<Rightarrow> string \<Rightarrow> exn + pyval" where
  "dict_getitem d k =
     (case map_of d k of None \<Rightarrow> Inl (Exn KeyError (key_repr k)) | Some v \<Rightarrow> Inr v)"

text \<open>The name of the type of a value, as error messages show it.\<close>

fun type_name :: "pyval \<Rightarrow> string" where
  "type_name PNone = ''NoneType''"
| "type_name (PBool b) = ''bool''"
| "type_name (PInt i) = ''int''"
| "type_name (PFloat m e) = ''float''"
| "type_name (PStr s) = ''str''"
| "type_name (PList xs) = ''list''"
| "type_name (PDict d) = ''dict''"

text \<open>
  \<open>v[k]\<close> with a string key on any value: only a dict can answer; a list or a string
  wants integer indices and every other value is not subscriptable.
\<close>

fun py_getitem :: "pyval \<Rightarrow> string \<Rightarrow> exn + pyval" where
  "py_getitem (PDict d) k = dict_getitem d k"
| "py_getitem (PList xs) k = Inl (Exn TypeError ''list indices must be integers or slices, not str'')"
| "py_getitem (PStr s) k = Inl (Exn TypeError (''string indices must be integers, not '' @ key_repr ''str''))"
| "py_getitem v k = Inl (Exn TypeError (key_repr (type_name v) @ '' object is not subscriptable''))"

text \<open>\<open>v.get(k, default)\<close>: an attribute only a dict has.\<close>

fun py_get :: "pyval \<Rightarrow> string \<Rightarrow> pyval \<Rightarrow> exn + pyval" where
  "py_get (PDict d) k dflt = Inr (case map_of d k of None \<Rightarrow> dflt | Some v \<Rightarrow> v)"
| "py_get v k dflt =
     Inl (Exn AttributeError (key_repr (type_name v) @ '' object has no attribute '' @ key_repr ''get''))"

section \<open>model.py\<close>

record SalesforceAudit =
  event_id :: pyval
  event_name :: pyval
  timestamp :: pyval
  event_details :: pyval

definition post_init :: "SalesforceAudit \<Rightarrow> exn + unit" where
  "post_init self =
     (if \<not> isinstance_int (timestamp self) then
        Inl (Exn ValueError ''timestamp must be an integer'')
      else if int_value (timestamp self) < 0 then
        Inl (Exn ValueError ''timestamp must be non-negative'')
      else Inr ())"

text \<open>The dataclass-generated constructor: store the four fields, then run \<open>post_init\<close>.\<close>

definition SalesforceAudit_init :: "pyval \<Rightarrow> pyval \<Rightarrow> pyval \<Rightarrow> pyval \<Rightarrow> exn + SalesforceAudit" where
  "SalesforceAudit_init eid ename ts details =
     (let self = \<lparr>event_id = eid, event_name = ename, timestamp = ts, event_details = details\<rparr>
      in and_then (post_init self) (\<lambda>_. Inr self))"

definition to_dict :: "SalesforceAudit \<Rightarrow> pyval" where
  "to_dict self = PDict
     [(''eventId'', event_id self),
      (''eventName'', event_name self),
      (''timestamp'', timestamp self),
      (''eventDetails'', event_details self)]"

definition from_dict :: "pyval \<Rightarrow> exn + SalesforceAudit" where
  "from_dict data =
     and_then (py_get data ''eventId'' (PStr '''')) (\<lambda>eid.
     and_then (py_get data ''eventName'' (PStr '''')) (\<lambda>ename.
     and_then (py_get data ''timestamp'' (PInt 0)) (\<lambda>ts.
     and_then (py_get data ''eventDetails'' (PStr '''')) (\<lambda>details.
     SalesforceAudit_init eid ename ts details))))"

text \<open>
  The class is declared with \<open>@dataclass\<close> and no \<open>frozen=True\<close>: assigning to a field
  of an existing record stores the value, and \<open>post_init\<close>, which only the
  constructor calls, does not run again.
\<close>

datatype field = Event_id | Event_name | Timestamp | Event_details

fun setattr :: "SalesforceAudit \<Rightarrow> field \<Rightarrow> pyval \<Rightarrow> SalesforceAudit" where
  "setattr self Event_id v = self\<lparr>event_id := v\<rparr>"
| "setattr self Event_name v = self\<lparr>event_name := v\<rparr>"
| "setattr self Timestamp v = self\<lparr>timestamp := v\<rparr>"
| "setattr self Event_details v = self\<lparr>event_details := v\<rparr>"

section \<open>client.py\<close>

text \<open>
  The boto3 Glue client is outside the repository: it is a pair of functions from a
  request to a response dict or a raised exception, standing for the remote registry
  in the state it has when the call is made.  The arguments are the \<open>RegistryName\<close>
  and \<open>SchemaName\<close> of the \<open>SchemaId\<close> and, for a version, the \<open>VersionNumber\<close>.
\<close>

record glue_service =
  glue_get_schema :: "string \<Rightarrow> string \<Rightarrow> exn + pydict"
  glue_get_schema_version :: "string \<Rightarrow> string \<Rightarrow> pyval \<Rightarrow> exn + pydict"

record GlueSchemaRegistryClient =
  registry_name :: string
  glue_client :: glue_service

text \<open>\<open>except ClientError as e: raise SchemaRegistryException(prefix + str(e))\<close>;
  an exception of any other class is not caught.\<close>

definition except_ClientError :: "string \<Rightarrow> exn + 'a \<Rightarrow> exn + 'a" where
  "except_ClientError prefix r =
     (case r of
        Inr response \<Rightarrow> Inr response
      | Inl e \<Rightarrow>
          if exn_class_of e = ClientError
          then Inl (Exn SchemaRegistryException (prefix @ exn_str e))
          else Inl e)"

definition get_schema :: "GlueSchemaRegistryClient \<Rightarrow> string \<Rightarrow> exn + pydict" where
  "get_schema self schema_name =
     except_ClientError ''Failed to get schema: ''
       (glue_get_schema (glue_client self) (registry_name self) schema_name)"

definition get_schema_version :: "GlueSchemaRegistryClient \<Rightarrow> string \<Rightarrow> pyval \<Rightarrow> exn + pydict" where
  "get_schema_version self schema_name version_number =
     except_ClientError ''Failed to get schema version: ''
       (glue_get_schema_version (glue_client self) (registry_name self) schema_name version_number)"

section \<open>The libraries the adapters call\<close>

text \<open>
  \<open>json\<close>, \<open>fastavro\<close> and the UTF-8 codec of \<open>str\<close> and \<open>bytes\<close> are not code of the
  repository.  The adapters take them as a parameter: each entry returns its result or
  the exception it raises.  \<open>schemaless_writer\<close> gives the bytes written to a fresh
  buffer; \<open>schemaless_reader\<close> reads from a buffer holding the given bytes.
\<close>

record pylib =
  json_loads :: "pyval \<Rightarrow> exn + pyval"
  json_dumps :: "pyval \<Rightarrow> exn + string"
  str_encode_utf8 :: "string \<Rightarrow> exn + byte list"
  bytes_decode_utf8 :: "byte list \<Rightarrow> exn + string"
  parse_schema :: "pyval \<Rightarrow> exn + pyval"
  schemaless_writer :: "pyval \<Rightarrow> pyval \<Rightarrow> exn + byte list"
  schemaless_reader :: "byte list \<Rightarrow> pyval \<Rightarrow> exn + pyval"

text \<open>\<open>except Exception as e: raise SchemaRegistryException(prefix + str(e))\<close>.\<close>

definition except_Exception :: "string \<Rightarrow> exn + 'a \<Rightarrow> exn + 'a" where
  "except_Exception prefix r =
     (case r of
        Inr x \<Rightarrow> Inr x
      | Inl e \<Rightarrow> Inl (Exn SchemaRegistryException (prefix @ exn_str e)))"

section \<open>avro_serializer.py\<close>

definition AvroSerializer_serialize_try ::
  "pylib \<Rightarrow> GlueSchemaRegistryClient \<Rightarrow> string \<Rightarrow> SalesforceAudit \<Rightarrow> exn + byte list" where
  "AvroSerializer_serialize_try lib client schema_name audit_event =
     and_then (get_schema client schema_name) (\<lambda>schema_response.
     and_then (dict_getitem schema_response ''LatestSchemaVersion'') (\<lambda>latest_version.
     and_then (get_schema_version client schema_name latest_version) (\<lambda>schema_version_response.
     and_then (dict_getitem schema_version_response ''SchemaDefinition'') (\<lambda>schema_definition.
     and_then (json_loads lib schema_definition) (\<lambda>schema_dict.
     and_then (parse_schema lib schema_dict) (\<lambda>avro_schema.
     let record = PDict
           [(''eventId'', event_id audit_event),
            (''eventName'', event_name audit_event),
            (''timestamp'', timestamp audit_event),
            (''eventDetails'', event_details audit_event)]
     in schemaless_writer lib avro_schema record))))))"

definition AvroSerializer_serialize ::
  "pylib \<Rightarrow> GlueSchemaRegistryClient \<Rightarrow> string \<Rightarrow> SalesforceAudit \<Rightarrow> exn + byte list" where
  "AvroSerializer_serialize lib client schema_name audit_event =
     except_Exception ''Failed to serialize SalesforceAudit: ''
       (AvroSerializer_serialize_try lib client schema_name audit_event)"

definition AvroSerializer_deserialize_try ::
  "pylib \<Rightarrow> GlueSchemaRegistryClient \<Rightarrow> string \<Rightarrow> byte list \<Rightarrow> exn + SalesforceAudit" where
  "AvroSerializer_deserialize_try lib client schema_name data =
     and_then (get_schema client schema_name) (\<lambda>schema_response.
     and_then (dict_getitem schema_response ''LatestSchemaVersion'') (\<lambda>latest_version.
     and_then (get_schema_version client schema_name latest_version) (\<lambda>schema_version_response.
     and_then (dict_getitem schema_version_response ''SchemaDefinition'') (\<lambda>schema_definition.
     and_then (json_loads lib schema_definition) (\<lambda>schema_dict.
     and_then (parse_schema lib schema_dict) (\<lambda>avro_schema.
     and_then (schemaless_reader lib data avro_schema) (\<lambda>record.
     and_then (py_getitem record ''eventId'') (\<lambda>eid.
     and_then (py_getitem record ''eventName'') (\<lambda>ename.
     and_then (py_getitem record ''timestamp'') (\<lambda>ts.
     and_then (py_getitem record ''eventDetails'') (\<lambda>details.
     SalesforceAudit_init eid ename ts details)))))))))))"

definition AvroSerializer_deserialize ::
  "pylib \<Rightarrow> GlueSchemaRegistryClient \<Rightarrow> string \<Rightarrow> byte list \<Rightarrow> exn + SalesforceAudit" where
  "AvroSerializer_deserialize lib client schema_name data =
     except_Exception ''Failed to deserialize SalesforceAudit: ''
       (AvroSerializer_deserialize_try lib client schema_name data)"

section \<open>json_serializer.py\<close>

definition JsonSerializer_serialize_try ::
  "pylib \<Rightarrow> GlueSchemaRegistryClient \<Rightarrow> string \<Rightarrow> SalesforceAudit \<Rightarrow> exn + byte list" where
  "JsonSerializer_serialize_try lib client schema_name audit_event =
     and_then (get_schema client schema_name) (\<lambda>schema_response.
     and_then (dict_getitem schema_response ''LatestSchemaVersion'') (\<lambda>latest_version.
     and_then (get_schema_version client schema_name latest_version) (\<lambda>schema_version_response.
     and_then (json_dumps lib (to_dict audit_event)) (\<lambda>json_str.
     str_encode_utf8 lib json_str))))"

definition JsonSerializer_serialize ::
  "pylib \<Rightarrow> GlueSchemaRegistryClient \<Rightarrow> string \<Rightarrow> SalesforceAudit \<Rightarrow> exn + byte list" where
  "JsonSerializer_serialize lib client schema_name audit_event =
     except_Exception ''Failed to serialize SalesforceAudit to JSON: ''
       (JsonSerializer_serialize_try lib client schema_name audit_event)"

definition JsonSerializer_deserialize_try ::
  "pylib \<Rightarrow> GlueSchemaRegistryClient \<Rightarrow> string \<Rightarrow> byte list \<Rightarrow> exn + SalesforceAudit" where
  "JsonSerializer_deserialize_try lib client schema_name data =
     and_then (get_schema client schema_name) (\<lambda>schema_response.
     and_then (dict_getitem schema_response ''LatestSchemaVersion'') (\<lambda>latest_version.
     and_then (get_schema_version client schema_name latest_version) (\<lambda>schema_version_response.
     and_then (bytes_decode_utf8 lib data) (\<lambda>json_str.
     and_then (json_loads lib (PStr json_str)) (\<lambda>data_dict.
     from_dict data_dict)))))"

definition JsonSerializer_deserialize ::
  "pylib \<Rightarrow> GlueSchemaRegistryClient \<Rightarrow> string \<Rightarrow> byte list \<Rightarrow> exn + SalesforceAudit" where
  "JsonSerializer_deserialize lib client schema_name data =
     except_Exception ''Failed to deserialize JSON to SalesforceAudit: ''
       (JsonSerializer_deserialize_try lib client schema_name data)"

section \<open>Notions used to state the properties\<close>

text \<open>The validity invariant of a record: the timestamp is an integer and not negative.\<close>

definition valid_record :: "SalesforceAudit \<Rightarrow> bool" where
  "valid_record r = (isinstance_int (timestamp r) \<and> 0 \<le> int_value (timestamp r))"

text \<open>
  The first three statements of every adapter operation: look the schema up, read its
  latest version number, fetch that version.  The binary adapter then reads the
  \<open>SchemaDefinition\<close> of the response.
\<close>

definition fetch_schema_version :: "GlueSchemaRegistryClient \<Rightarrow> string \<Rightarrow> exn + pydict" where
  "fetch_schema_version client schema_name =
     and_then (get_schema client schema_name) (\<lambda>schema_response.
     and_then (dict_getitem schema_response ''LatestSchemaVersion'') (\<lambda>latest_version.
     get_schema_version client schema_name latest_version))"

definition fetch_schema_definition :: "GlueSchemaRegistryClient \<Rightarrow> string \<Rightarrow> exn + pyval" where
  "fetch_schema_definition client schema_name =
     and_then (fetch_schema_version client schema_name) (\<lambda>schema_version_response.
     dict_getitem schema_version_response ''SchemaDefinition'')"

text \<open>Serialize, then deserialize what came out, against the same client.\<close>

definition avro_round_trip ::
  "pylib \<Rightarrow> GlueSchemaRegistryClient \<Rightarrow> string \<Rightarrow> SalesforceAudit \<Rightarrow> exn + SalesforceAudit" where
  "avro_round_trip lib client schema_name r =
     and_then (AvroSerializer_serialize lib client schema_name r)
       (AvroSerializer_deserialize lib client schema_name)"

definition json_round_trip ::
  "pylib \<Rightarrow> GlueSchemaRegistryClient \<Rightarrow> string \<Rightarrow> SalesforceAudit \<Rightarrow> exn + SalesforceAudit" where
  "json_round_trip lib client schema_name r =
     and_then (JsonSerializer_serialize lib client schema_name r)
       (JsonSerializer_deserialize lib client schema_name)"

text \<open>
  The mapping table between the fields of a record and the names on the wire, and the
  value the textual adapter takes for a name that is missing.
\<close>

definition field_names :: "(string \<times> (SalesforceAudit \<Rightarrow> pyval)) list" where
  "field_names =
     [(''eventId'', event_id), (''eventName'', event_name),
      (''timestamp'', timestamp), (''eventDetails'', event_details)]"

definition default_of :: "string \<Rightarrow> pyval" where
  "default_of k = (if k = ''timestamp'' then PInt 0 else PStr [])"

definition wire_mapping :: "SalesforceAudit \<Rightarrow> pyval" where
  "wire_mapping r = PDict (map (\<lambda>(k, f). (k, f r)) field_names)"

text \<open>Two mappings that hold the same value under each of the four wire names.\<close>

definition same_fields :: "pyval \<Rightarrow> pyval \<Rightarrow> bool" where
  "same_fields d d' = (\<forall>k \<in> set (map fst field_names). py_getitem d k = py_getitem d' k)"

text \<open>The last statement of the binary \<open>deserialize\<close>: the record of a decoded row.\<close>

definition record_of_row :: "pyval \<Rightarrow> exn + SalesforceAudit" where
  "record_of_row row =
     and_then (py_getitem row ''eventId'') (\<lambda>eid.
     and_then (py_getitem row ''eventName'') (\<lambda>ename.
     and_then (py_getitem row ''timestamp'') (\<lambda>ts.
     and_then (py_getitem row ''eventDetails'') (\<lambda>details.
     SalesforceAudit_init eid ename ts details))))"

section \<open>Records over time\<close>

text \<open>
  To speak of a record after it was constructed, the code is read a second time with
  its objects in a store: the records a program has constructed, in the order of their
  construction, a record being referred to by its position.  An operation takes the
  store and returns its result, a value or the exception raised, with the store as it
  left it.  Reading an attribute looks the object up, the constructor adds an object,
  a library or registry call does not touch the store, and \<open>try\<close> ... \<open>except\<close> keeps
  whatever the body did to it.  Each operation below follows its source statement by
  statement, like its counterpart above, which takes and returns records as values.
\<close>

type_synonym address = nat

type_synonym store = "SalesforceAudit list"

type_synonym 'a action = "store \<Rightarrow> (exn + 'a) \<times> store"

definition returns :: "'a \<Rightarrow> 'a action" where
  "returns x s = (Inr x, s)"

definition raises :: "exn \<Rightarrow> 'a action" where
  "raises e s = (Inl e, s)"

text \<open>One statement after another: an exception ends the sequence.\<close>

definition next_do :: "'a action \<Rightarrow> ('a \<Rightarrow> 'b action) \<Rightarrow> 'b action" where
  "next_do m f s = (case m s of (Inl e, s') \<Rightarrow> (Inl e, s') | (Inr x, s') \<Rightarrow> f x s')"

text \<open>A call of a library or of the registry client: its outcome, the store as it was.\<close>

definition calling :: "exn + 'a \<Rightarrow> 'a action" where
  "calling r s = (r, s)"

text \<open>\<open>self.f\<close>, for a reference the program holds.\<close>

definition getattr :: "address \<Rightarrow> (SalesforceAudit \<Rightarrow> pyval) \<Rightarrow> pyval action" where
  "getattr self f s = (Inr (f (s ! self)), s)"

text \<open>
  The generated \<open>__init__\<close> stores its four arguments in a new object.  The object of a
  constructor call that raises was never handed to anybody, and is gone.
\<close>

definition new_object :: "pyval \<Rightarrow> pyval \<Rightarrow> pyval \<Rightarrow> pyval \<Rightarrow> address action" where
  "new_object eid ename ts details s =
     (Inr (length s),
      s @ [\<lparr>event_id = eid, event_name = ename, timestamp = ts, event_details = details\<rparr>])"

definition constructing :: "address action \<Rightarrow> address action" where
  "constructing m s =
     (case m s of (Inl e, s') \<Rightarrow> (Inl e, take (length s) s') | (Inr self, s') \<Rightarrow> (Inr self, s'))"

definition catching :: "string \<Rightarrow> 'a action \<Rightarrow> 'a action" where
  "catching prefix m s =
     (case m s of
        (Inr x, s') \<Rightarrow> (Inr x, s')
      | (Inl e, s') \<Rightarrow> (Inl (Exn SchemaRegistryException (prefix @ exn_str e)), s'))"

subsection \<open>model.py\<close>

definition obj_post_init :: "address \<Rightarrow> unit action" where
  "obj_post_init self =
     next_do (getattr self timestamp) (\<lambda>ts.
     if \<not> isinstance_int ts then raises (Exn ValueError ''timestamp must be an integer'')
     else
       next_do (getattr self timestamp) (\<lambda>ts.
       if int_value ts < 0 then raises (Exn ValueError ''timestamp must be non-negative'')
       else returns ()))"

definition obj_init :: "pyval \<Rightarrow> pyval \<Rightarrow> pyval \<Rightarrow> pyval \<Rightarrow> address action" where
  "obj_init eid ename ts details =
     constructing
       (next_do (new_object eid ename ts details) (\<lambda>self.
        next_do (obj_post_init self) (\<lambda>_.
        returns self)))"

definition obj_to_dict :: "address \<Rightarrow> pyval action" where
  "obj_to_dict self =
     next_do (getattr self event_id) (\<lambda>eid.
     next_do (getattr self event_name) (\<lambda>ename.
     next_do (getattr self timestamp) (\<lambda>ts.
     next_do (getattr self event_details) (\<lambda>details.
     returns (PDict
       [(''eventId'', eid),
        (''eventName'', ename),
        (''timestamp'', ts),
        (''eventDetails'', details)])))))"

definition obj_from_dict :: "pyval \<Rightarrow> address action" where
  "obj_from_dict data =
     next_do (calling (py_get data ''eventId'' (PStr ''''))) (\<lambda>eid.
     next_do (calling (py_get data ''eventName'' (PStr ''''))) (\<lambda>ename.
     next_do (calling (py_get data ''timestamp'' (PInt 0))) (\<lambda>ts.
     next_do (calling (py_get data ''eventDetails'' (PStr ''''))) (\<lambda>details.
     obj_init eid ename ts details))))"

subsection \<open>avro_serializer.py\<close>

definition obj_avro_serialize ::
  "pylib \<Rightarrow> GlueSchemaRegistryClient \<Rightarrow> string \<Rightarrow> address \<Rightarrow> byte list action" where
  "obj_avro_serialize lib client schema_name audit_event =
     catching ''Failed to serialize SalesforceAudit: ''
      (next_do (calling (get_schema client schema_name)) (\<lambda>schema_response.
       next_do (calling (dict_getitem schema_response ''LatestSchemaVersion'')) (\<lambda>latest_version.
       next_do (calling (get_schema_version client schema_name latest_version)) (\<lambda>schema_version_response.
       next_do (calling (dict_getitem schema_version_response ''SchemaDefinition'')) (\<lambda>schema_definition.
       next_do (calling (json_loads lib schema_definition)) (\<lambda>schema_dict.
       next_do (calling (parse_schema lib schema_dict)) (\<lambda>avro_schema.
       next_do (getattr audit_event event_id) (\<lambda>eid.
       next_do (getattr audit_event event_name) (\<lambda>ename.
       next_do (getattr audit_event timestamp) (\<lambda>ts.
       next_do (getattr audit_event event_details) (\<lambda>details.
       let record = PDict
             [(''eventId'', eid),
              (''eventName'', ename),
              (''timestamp'', ts),
              (''eventDetails'', details)]
       in calling (schemaless_writer lib avro_schema record))))))))))))"

definition obj_avro_deserialize ::
  "pylib \<Rightarrow> GlueSchemaRegistryClient \<Rightarrow> string \<Rightarrow> byte list \<Rightarrow> address action" where
  "obj_avro_deserialize lib client schema_name data =
     catching ''Failed to deserialize SalesforceAudit: ''
      (next_do (calling (get_schema client schema_name)) (\<lambda>schema_response.
       next_do (calling (dict_getitem schema_response ''LatestSchemaVersion'')) (\<lambda>latest_version.
       next_do (calling (get_schema_version client schema_name latest_version)) (\<lambda>schema_version_response.
       next_do (calling (dict_getitem schema_version_response ''SchemaDefinition'')) (\<lambda>schema_definition.
       next_do (calling (json_loads lib schema_definition)) (\<lambda>schema_dict.
       next_do (calling (parse_schema lib schema_dict)) (\<lambda>avro_schema.
       next_do (calling (schemaless_reader lib data avro_schema)) (\<lambda>record.
       next_do (calling (py_getitem record ''eventId'')) (\<lambda>eid.
       next_do (calling (py_getitem record ''eventName'')) (\<lambda>ename.
       next_do (calling (py_getitem record ''timestamp'')) (\<lambda>ts.
       next_do (calling (py_getitem record ''eventDetails'')) (\<lambda>details.
       obj_init eid ename ts details))))))))))))"

subsection \<open>json_serializer.py\<close>

definition obj_json_serialize ::
  "pylib \<Rightarrow> GlueSchemaRegistryClient \<Rightarrow> string \<Rightarrow> address \<Rightarrow> byte list action" where
  "obj_json_serialize lib client schema_name audit_event =
     catching ''Failed to serialize SalesforceAudit to JSON: ''
      (next_do (calling (get_schema client schema_name)) (\<lambda>schema_response.
       next_do (calling (dict_getitem schema_response ''LatestSchemaVersion'')) (\<lambda>latest_version.
       next_do (calling (get_schema_version client schema_name latest_version)) (\<lambda>schema_version_response.
       next_do (obj_to_dict audit_event) (\<lambda>mapping.
       next_do (calling (json_dumps lib mapping)) (\<lambda>json_str.
       calling (str_encode_utf8 lib json_str)))))))"

definition obj_json_deserialize ::
  "pylib \<Rightarrow> GlueSchemaRegistryClient \<Rightarrow> string \<Rightarrow> byte list \<Rightarrow> address action" where
  "obj_json_deserialize lib client schema_name data =
     catching ''Failed to deserialize JSON to SalesforceAudit: ''
      (next_do (calling (get_schema client schema_name)) (\<lambda>schema_response.
       next_do (calling (dict_getitem schema_response ''LatestSchemaVersion'')) (\<lambda>latest_version.
       next_do (calling (get_schema_version client schema_name latest_version)) (\<lambda>schema_version_response.
       next_do (calling (bytes_decode_utf8 lib data)) (\<lambda>json_str.
       next_do (calling (json_loads lib (PStr json_str))) (\<lambda>data_dict.
       obj_from_dict data_dict))))))"

subsection \<open>Programs\<close>

text \<open>
  A program is a sequence of calls of the operations the repository defines on
  records: the constructor, \<open>to_dict\<close>, \<open>from_dict\<close> and the two operations of each
  adapter, each against the registry of that moment.  A record is passed by a reference
  the program holds, that is, by a position of the store.  No operation of the
  repository assigns to a field.
\<close>

datatype api_call =
    Construct pyval pyval pyval pyval
  | Call_to_dict address
  | Call_from_dict pyval
  | Call_avro_serialize GlueSchemaRegistryClient string address
  | Call_avro_deserialize GlueSchemaRegistryClient string "byte list"
  | Call_json_serialize GlueSchemaRegistryClient string address
  | Call_json_deserialize GlueSchemaRegistryClient string "byte list"

datatype api_result =
    Raised exn
  | Record_at address
  | Bytes "byte list"
  | Mapping pyval
  | No_such_record

definition outcome :: "('a \<Rightarrow> api_result) \<Rightarrow> (exn + 'a) \<times> store \<Rightarrow> api_result \<times> store" where
  "outcome tag res = (case res of (Inl e, s) \<Rightarrow> (Raised e, s) | (Inr x, s) \<Rightarrow> (tag x, s))"

definition on_record :: "address \<Rightarrow> store \<Rightarrow> (api_result \<times> store) \<Rightarrow> api_result \<times> store" where
  "on_record self s res = (if self < length s then res else (No_such_record, s))"

fun perform :: "pylib \<Rightarrow> store \<Rightarrow> api_call \<Rightarrow> api_result \<times> store" where
  "perform lib s (Construct eid ename ts details) =
     outcome Record_at (obj_init eid ename ts details s)"
| "perform lib s (Call_to_dict self) =
     on_record self s (outcome Mapping (obj_to_dict self s))"
| "perform lib s (Call_from_dict data) =
     outcome Record_at (obj_from_dict data s)"
| "perform lib s (Call_avro_serialize client schema_name self) =
     on_record self s (outcome Bytes (obj_avro_serialize lib client schema_name self s))"
| "perform lib s (Call_avro_deserialize client schema_name data) =
     outcome Record_at (obj_avro_deserialize lib client schema_name data s)"
| "perform lib s (Call_json_serialize client schema_name self) =
     on_record self s (outcome Bytes (obj_json_serialize lib client schema_name self s))"
| "perform lib s (Call_json_deserialize client schema_name data) =
     outcome Record_at (obj_json_deserialize lib client schema_name data s)"

fun run :: "pylib \<Rightarrow> store \<Rightarrow> api_call list \<Rightarrow> store" where
  "run lib s [] = s"
| "run lib s (c # cs) = run lib (snd (perform lib s c)) cs"

section \<open>The libraries and a registry, as the spec describes them\<close>

text \<open>
  Modelled from the spec: the two encoding libraries, the UTF-8 codec and the registry
  service are not part of the repository.  The spec (sections 4.2, 4.3 and 6) has the
  binary wire format as a standard schema-driven row encoding with no schema in the
  bytes, and the textual one as UTF-8 text of a field-name to value mapping.  This
  section gives one instance of the library parameter after these formats: the Avro
  binary encoding of a record of \<open>string\<close> and \<open>long\<close> fields, a JSON printer and parser
  for the layout \<open>json.dumps\<close> emits by default, UTF-8 for the code points a \<open>char\<close>
  holds, and a registry stub.  It serves where a property needs what the libraries
  compute, and to run the adapters on concrete payloads.  It raises where it does not
  cover a case (floats, \<open>\u\<close> escapes above \<open>00ff\<close>, Avro types other than \<open>string\<close>
  and \<open>long\<close>).
\<close>

subsection \<open>UTF-8\<close>

fun ref_encode_char :: "char \<Rightarrow> byte list" where
  "ref_encode_char c =
     (let n = (of_char c :: nat)
      in if n < 128 then [of_nat n] else [of_nat (192 + n div 64), of_nat (128 + n mod 64)])"

definition utf8 :: "string \<Rightarrow> byte list" where
  "utf8 s = concat (map ref_encode_char s)"

definition ref_str_encode :: "string \<Rightarrow> exn + byte list" where
  "ref_str_encode s = Inr (utf8 s)"

fun ref_decode :: "byte list \<Rightarrow> string option" where
  "ref_decode [] = Some []"
| "ref_decode [b] = (if unat b < 128 then Some [char_of (unat b)] else None)"
| "ref_decode (b # c # bs) =
     (if unat b < 128 then map_option ((#) (char_of (unat b))) (ref_decode (c # bs))
      else if (unat b = 194 \<or> unat b = 195) \<and> 128 \<le> unat c \<and> unat c < 192
      then map_option ((#) (char_of ((unat b - 192) * 64 + (unat c - 128)))) (ref_decode bs)
      else None)"

definition ref_bytes_decode :: "byte list \<Rightarrow> exn + string" where
  "ref_bytes_decode bs =
     (case ref_decode bs of
        None \<Rightarrow> Inl (Exn (OtherException ''UnicodeDecodeError'') ''codec cannot decode bytes'')
      | Some s \<Rightarrow> Inr s)"

subsection \<open>JSON text\<close>

function int_digits :: "int \<Rightarrow> string" where
  "int_digits i =
     (if i < 10 then [char_of (48 + i)] else int_digits (i div 10) @ [char_of (48 + i mod 10)])"
  by pat_completeness auto
termination
  by (relation "measure nat") auto

declare int_digits.simps [simp del]

definition int_text :: "int \<Rightarrow> string" where
  "int_text i = (if i < 0 then CHR ''-'' # int_digits (- i) else int_digits i)"

fun hex_char :: "nat \<Rightarrow> char" where
  "hex_char n = (if n < 10 then char_of (48 + n) else char_of (87 + n))"

definition ref_escape_char :: "char \<Rightarrow> string" where
  \<open>ref_escape_char c =
     (let n = (of_char c :: nat)
      in if c = CHR 0x22 then [CHR 0x5C, CHR 0x22]
         else if c = CHR 0x5C then [CHR 0x5C, CHR 0x5C]
         else if c = CHR 0x0A then [CHR 0x5C, CHR ''n'']
         else if c = CHR 0x0D then [CHR 0x5C, CHR ''r'']
         else if c = CHR 0x09 then [CHR 0x5C, CHR ''t'']
         else if c = CHR 0x08 then [CHR 0x5C, CHR ''b'']
         else if c = CHR 0x0C then [CHR 0x5C, CHR ''f'']
         else if 32 \<le> n \<and> n < 127 then [c]
         else [CHR 0x5C, CHR ''u'', CHR ''0'', CHR ''0'', hex_char (n div 16), hex_char (n mod 16)])\<close>

definition ref_quote :: "string \<Rightarrow> string" where
  "ref_quote s = [CHR 0x22] @ concat (map ref_escape_char s) @ [CHR 0x22]"

fun ref_dumps :: "pyval \<Rightarrow> string option"
  and ref_dumps_items :: "pyval list \<Rightarrow> string option"
  and ref_dumps_members :: "(string \<times> pyval) list \<Rightarrow> string option" where
  "ref_dumps PNone = Some ''null''"
| "ref_dumps (PBool b) = Some (if b then ''true'' else ''false'')"
| "ref_dumps (PInt i) = Some (int_text i)"
| "ref_dumps (PFloat m e) = None"
| "ref_dumps (PStr s) = Some (ref_quote s)"
| "ref_dumps (PList xs) = map_option (\<lambda>t. ''['' @ t @ '']'') (ref_dumps_items xs)"
| "ref_dumps (PDict kvs) = map_option (\<lambda>t. ''{'' @ t @ ''}'') (ref_dumps_members kvs)"
| "ref_dumps_items [] = Some []"
| "ref_dumps_items [x] = ref_dumps x"
| "ref_dumps_items (x # y # ys) =
     (case ref_dumps x of None \<Rightarrow> None
      | Some t \<Rightarrow> map_option (\<lambda>u. t @ '', '' @ u) (ref_dumps_items (y # ys)))"
| "ref_dumps_members [] = Some []"
| "ref_dumps_members [(k, v)] = map_option (\<lambda>t. ref_quote k @ '': '' @ t) (ref_dumps v)"
| "ref_dumps_members ((k, v) # y # ys) =
     (case ref_dumps v of None \<Rightarrow> None
      | Some t \<Rightarrow> map_option (\<lambda>u. ref_quote k @ '': '' @ t @ '', '' @ u) (ref_dumps_members (y # ys)))"

definition ref_json_dumps :: "pyval \<Rightarrow> exn + string" where
  "ref_json_dumps v =
     (case ref_dumps v of
        None \<Rightarrow> Inl (Exn TypeError ''value is not covered by the reference printer'')
      | Some t \<Rightarrow> Inr t)"

fun is_ws :: "char \<Rightarrow> bool" where
  "is_ws c = (c = CHR '' '' \<or> c = CHR 0x0A \<or> c = CHR 0x0D \<or> c = CHR 0x09)"

fun is_digit :: "char \<Rightarrow> bool" where
  "is_digit c = (48 \<le> (of_char c :: nat) \<and> (of_char c :: nat) < 58)"

fun hex_value :: "char \<Rightarrow> nat option" where
  "hex_value c =
     (let n = (of_char c :: nat)
      in if 48 \<le> n \<and> n < 58 then Some (n - 48)
         else if 97 \<le> n \<and> n < 103 then Some (n - 87)
         else if 65 \<le> n \<and> n < 71 then Some (n - 55)
         else None)"

text \<open>
  One character of a string literal, escapes resolved, and the text after it.  The
  closing quote and a raw control character are not characters of the literal.
\<close>

definition parse_escape :: "string \<Rightarrow> (char \<times> string) option" where
  "parse_escape cs =
     (case cs of
        [] \<Rightarrow> None
      | e # ds \<Rightarrow>
          if e = CHR ''u'' then
            (if length ds < 4 then None
             else
               (case (hex_value (ds ! 0), hex_value (ds ! 1), hex_value (ds ! 2), hex_value (ds ! 3)) of
                  (Some a, Some b, Some h, Some l) \<Rightarrow>
                    if a = 0 \<and> b = 0 then Some (char_of (16 * h + l), drop 4 ds) else None
                | _ \<Rightarrow> None))
          else if e = CHR 0x22 \<or> e = CHR 0x5C \<or> e = CHR ''/'' then Some (e, ds)
          else if e = CHR ''n'' then Some (CHR 0x0A, ds)
          else if e = CHR ''r'' then Some (CHR 0x0D, ds)
          else if e = CHR ''t'' then Some (CHR 0x09, ds)
          else if e = CHR ''b'' then Some (CHR 0x08, ds)
          else if e = CHR ''f'' then Some (CHR 0x0C, ds)
          else None)"

definition parse_char :: "char \<Rightarrow> string \<Rightarrow> (char \<times> string) option" where
  "parse_char c cs =
     (if c = CHR 0x5C then parse_escape cs
      else if (of_char c :: nat) < 32 then None
      else Some (c, cs))"

text \<open>The characters of a string literal after its opening quote, and what follows it.\<close>

fun parse_chars :: "nat \<Rightarrow> string \<Rightarrow> string \<Rightarrow> (string \<times> string) option" where
  "parse_chars 0 acc cs = None"
| "parse_chars (Suc n) acc [] = None"
| "parse_chars (Suc n) acc (c # cs) =
     (if c = CHR 0x22 then Some (acc, cs)
      else
        (case parse_char c cs of
           None \<Rightarrow> None
         | Some (d, rest) \<Rightarrow> parse_chars n (acc @ [d]) rest))"

definition parse_string :: "string \<Rightarrow> (string \<times> string) option" where
  "parse_string cs = parse_chars (length cs) [] cs"

fun digits_value :: "string \<Rightarrow> int" where
  "digits_value ds = foldl (\<lambda>n c. 10 * n + ((of_char c :: int) - 48)) 0 ds"

text \<open>An unsigned run of digits; a fraction or an exponent after it is not covered.\<close>

definition parse_digits :: "string \<Rightarrow> (int \<times> string) option" where
  "parse_digits cs =
     (let ds = takeWhile is_digit cs; rest = dropWhile is_digit cs
      in if ds = [] then None
         else if rest \<noteq> [] \<and> (hd rest = CHR ''.'' \<or> hd rest = CHR ''e'' \<or> hd rest = CHR ''E'') then None
         else Some (digits_value ds, rest))"

text \<open>\<open>d[k] = v\<close> on a dict: a later member with the same name replaces the earlier one.\<close>

fun dict_setitem :: "pydict \<Rightarrow> string \<Rightarrow> pyval \<Rightarrow> pydict" where
  "dict_setitem [] k v = [(k, v)]"
| "dict_setitem ((k', v') # d) k v = (if k' = k then (k, v) # d else (k', v') # dict_setitem d k v)"

definition opens_with :: "char \<Rightarrow> string \<Rightarrow> bool" where
  "opens_with c cs = (case cs of [] \<Rightarrow> False | d # ds \<Rightarrow> d = c)"

text \<open>A value that is not an object or an array; the text starts at its first character.\<close>

definition parse_scalar :: "string \<Rightarrow> (pyval \<times> string) option" where
  "parse_scalar cs =
     (if opens_with (CHR 0x22) cs then map_option (\<lambda>(s, r). (PStr s, r)) (parse_string (tl cs))
      else if opens_with (CHR ''-'') cs then map_option (\<lambda>(k, r). (PInt (- k), r)) (parse_digits (tl cs))
      else if take 4 cs = ''true'' then Some (PBool True, drop 4 cs)
      else if take 5 cs = ''false'' then Some (PBool False, drop 5 cs)
      else if take 4 cs = ''null'' then Some (PNone, drop 4 cs)
      else map_option (\<lambda>(k, r). (PInt k, r)) (parse_digits cs))"

text \<open>The name of a member and its colon.\<close>

definition parse_key :: "string \<Rightarrow> (string \<times> string) option" where
  "parse_key cs =
     (let t = dropWhile is_ws cs
      in if \<not> opens_with (CHR 0x22) t then None
         else
           (case parse_string (tl t) of
              None \<Rightarrow> None
            | Some (k, r) \<Rightarrow>
                (let u = dropWhile is_ws r
                 in if opens_with (CHR '':'') u then Some (k, tl u) else None)))"

text \<open>Whether the text, after white space, starts with the character; and the text after it.\<close>

definition next_is :: "char \<Rightarrow> string \<Rightarrow> bool" where
  "next_is c cs = opens_with c (dropWhile is_ws cs)"

definition after_next :: "string \<Rightarrow> string" where
  "after_next cs = tl (dropWhile is_ws cs)"

text \<open>
  The parser descends with a bound on its depth of calls; one more than the length of
  the text is always enough.
\<close>

fun parse_value :: "nat \<Rightarrow> string \<Rightarrow> (pyval \<times> string) option"
  and parse_items :: "nat \<Rightarrow> pyval list \<Rightarrow> string \<Rightarrow> (pyval \<times> string) option"
  and parse_members :: "nat \<Rightarrow> pydict \<Rightarrow> string \<Rightarrow> (pyval \<times> string) option" where
  "parse_value 0 cs = None"
| "parse_value (Suc n) cs =
     (if next_is (CHR ''{'') cs then
        (if next_is (CHR ''}'') (after_next cs) then Some (PDict [], after_next (after_next cs))
         else parse_members n [] (after_next cs))
      else if next_is (CHR ''['') cs then
        (if next_is (CHR '']'') (after_next cs) then Some (PList [], after_next (after_next cs))
         else parse_items n [] (after_next cs))
      else parse_scalar (dropWhile is_ws cs))"
| "parse_items 0 acc cs = None"
| "parse_items (Suc n) acc cs =
     (case parse_value n cs of
        None \<Rightarrow> None
      | Some (v, r) \<Rightarrow>
          if next_is (CHR '','') r then parse_items n (acc @ [v]) (after_next r)
          else if next_is (CHR '']'') r then Some (PList (acc @ [v]), after_next r)
          else None)"
| "parse_members 0 acc cs = None"
| "parse_members (Suc n) acc cs =
     (case parse_key cs of
        None \<Rightarrow> None
      | Some (k, r) \<Rightarrow>
          (case parse_value n r of
             None \<Rightarrow> None
           | Some (v, r') \<Rightarrow>
               if next_is (CHR '','') r' then parse_members n (dict_setitem acc k v) (after_next r')
               else if next_is (CHR ''}'') r' then Some (PDict (dict_setitem acc k v), after_next r')
               else None))"

fun ref_json_loads :: "pyval \<Rightarrow> exn + pyval" where
  "ref_json_loads (PStr s) =
     (case parse_value (Suc (length s)) s of
        None \<Rightarrow> Inl (Exn ValueError ''JSON text cannot be decoded'')
      | Some (v, r) \<Rightarrow>
          if dropWhile is_ws r = [] then Inr v
          else Inl (Exn ValueError ''Extra data''))"
| "ref_json_loads v = Inl (Exn TypeError ''the JSON object must be str, bytes or bytearray'')"

subsection \<open>Avro rows\<close>

definition zigzag :: "int \<Rightarrow> int" where
  "zigzag i = (if 0 \<le> i then 2 * i else - 2 * i - 1)"

definition unzigzag :: "int \<Rightarrow> int" where
  "unzigzag z = (if z mod 2 = 0 then z div 2 else - ((z + 1) div 2))"

function varint :: "int \<Rightarrow> byte list" where
  "varint z = (if z < 128 then [of_int z] else of_int (128 + z mod 128) # varint (z div 128))"
  by pat_completeness auto
termination
  by (relation "measure nat") auto

declare varint.simps [simp del]

fun read_varint :: "byte list \<Rightarrow> (int \<times> byte list) option" where
  "read_varint [] = None"
| "read_varint (b # bs) =
     (if uint b < 128 then Some (uint b, bs)
      else map_option (\<lambda>(v, r). (uint b - 128 + 128 * v, r)) (read_varint bs))"

definition write_long :: "int \<Rightarrow> exn + byte list" where
  "write_long i =
     (if - (2 ^ 63) \<le> i \<and> i < 2 ^ 63 then Inr (varint (zigzag i))
      else Inl (Exn (OtherException ''OverflowError'') ''int too large to convert''))"

definition read_long :: "byte list \<Rightarrow> (int \<times> byte list) option" where
  "read_long bs = map_option (\<lambda>(z, r). (unzigzag z, r)) (read_varint bs)"

definition write_string :: "string \<Rightarrow> byte list" where
  "write_string s =
     varint (zigzag (int (length (utf8 s)))) @ utf8 s"

definition read_string :: "byte list \<Rightarrow> (string \<times> byte list) option" where
  "read_string bs =
     (case read_long bs of
        None \<Rightarrow> None
      | Some (n, r) \<Rightarrow>
          if n < 0 \<or> int (length r) < n then None
          else map_option (\<lambda>s. (s, drop (nat n) r)) (ref_decode (take (nat n) r)))"

text \<open>The name and type of a field of a record schema, for the two types covered.\<close>

fun str_of :: "pyval option \<Rightarrow> string option" where
  "str_of (Some (PStr s)) = Some s"
| "str_of v = None"

fun list_of :: "pyval option \<Rightarrow> pyval list option" where
  "list_of (Some (PList xs)) = Some xs"
| "list_of v = None"

fun field_spec :: "pyval \<Rightarrow> (string \<times> string) option" where
  "field_spec (PDict f) =
     (case str_of (map_of f ''name'') of
        None \<Rightarrow> None
      | Some n \<Rightarrow>
          (case str_of (map_of f ''type'') of
             None \<Rightarrow> None
           | Some t \<Rightarrow> if t = ''string'' \<or> t = ''long'' then Some (n, t) else None))"
| "field_spec v = None"

fun schema_fields :: "pyval \<Rightarrow> (string \<times> string) list option" where
  "schema_fields (PDict s) =
     (if str_of (map_of s ''type'') = Some ''record'' then
        (case list_of (map_of s ''fields'') of
           None \<Rightarrow> None
         | Some fs \<Rightarrow> those (map field_spec fs))
      else None)"
| "schema_fields v = None"

definition ref_parse_schema :: "pyval \<Rightarrow> exn + pyval" where
  "ref_parse_schema v =
     (case schema_fields v of
        None \<Rightarrow> Inl (Exn (OtherException ''SchemaParseException'') ''schema is not covered by the reference codec'')
      | Some fs \<Rightarrow> Inr v)"

definition write_field :: "pydict \<Rightarrow> string \<times> string \<Rightarrow> exn + byte list" where
  "write_field d f =
     (case map_of d (fst f) of
        None \<Rightarrow> Inl (Exn ValueError (''no value and no default for '' @ fst f))
      | Some v \<Rightarrow>
          if snd f = ''string'' then
            (case v of
               PStr s \<Rightarrow> Inr (write_string s)
             | _ \<Rightarrow> Inl (Exn TypeError ''a string is required''))
          else
            (if isinstance_int v then write_long (int_value v)
             else Inl (Exn TypeError ''an integer is required'')))"

fun write_fields :: "pydict \<Rightarrow> (string \<times> string) list \<Rightarrow> exn + byte list" where
  "write_fields d [] = Inr []"
| "write_fields d (f # fs) =
     and_then (write_field d f) (\<lambda>bs. and_then (write_fields d fs) (\<lambda>cs. Inr (bs @ cs)))"

definition read_field :: "string \<times> string \<Rightarrow> byte list \<Rightarrow> (pyval \<times> byte list) option" where
  "read_field f bs =
     (if snd f = ''string'' then map_option (\<lambda>(s, r). (PStr s, r)) (read_string bs)
      else map_option (\<lambda>(i, r). (PInt i, r)) (read_long bs))"

fun read_fields :: "(string \<times> string) list \<Rightarrow> byte list \<Rightarrow> pydict option" where
  "read_fields [] bs = Some []"
| "read_fields (f # fs) bs =
     (case read_field f bs of
        None \<Rightarrow> None
      | Some (v, r) \<Rightarrow> map_option ((#) (fst f, v)) (read_fields fs r))"

definition ref_schemaless_writer :: "pyval \<Rightarrow> pyval \<Rightarrow> exn + byte list" where
  "ref_schemaless_writer schema record =
     (case schema_fields schema of
        None \<Rightarrow> Inl (Exn (OtherException ''SchemaParseException'') ''schema is not covered by the reference codec'')
      | Some fs \<Rightarrow>
          (case record of
             PDict d \<Rightarrow> write_fields d fs
           | _ \<Rightarrow> Inl (Exn TypeError ''a mapping is required'')))"

definition ref_schemaless_reader :: "byte list \<Rightarrow> pyval \<Rightarrow> exn + pyval" where
  "ref_schemaless_reader data schema =
     (case schema_fields schema of
        None \<Rightarrow> Inl (Exn (OtherException ''SchemaParseException'') ''schema is not covered by the reference codec'')
      | Some fs \<Rightarrow>
          (case read_fields fs data of
             None \<Rightarrow> Inl (Exn (OtherException ''EOFError'') ''the row ends before the schema does'')
           | Some d \<Rightarrow> Inr (PDict d)))"

definition reference_lib :: pylib where
  "reference_lib =
     \<lparr>json_loads = ref_json_loads,
      json_dumps = ref_json_dumps,
      str_encode_utf8 = ref_str_encode,
      bytes_decode_utf8 = ref_bytes_decode,
      parse_schema = ref_parse_schema,
      schemaless_writer = ref_schemaless_writer,
      schemaless_reader = ref_schemaless_reader\<rparr>"

subsection \<open>Registries\<close>

text \<open>
  A registry stub: its name, the version number it reports as latest, and its schemas
  by name, each with its data format and definition text.  An unknown registry, schema
  or version is answered with the service's error response, which the SDK raises as a
  \<open>ClientError\<close>.
\<close>

definition not_found :: "string \<Rightarrow> exn" where
  "not_found operation =
     Exn ClientError (''An error occurred (EntityNotFoundException) when calling the ''
       @ operation @ '' operation: Schema is not found.'')"

definition stub_get_schema ::
  "string \<Rightarrow> int \<Rightarrow> (string \<times> string \<times> string) list \<Rightarrow> string \<Rightarrow> string \<Rightarrow> exn + pydict" where
  "stub_get_schema name latest schemas registry schema_name =
     (case (if registry = name then map_of schemas schema_name else None) of
        None \<Rightarrow> Inl (not_found ''GetSchema'')
      | Some (format, text) \<Rightarrow>
          Inr [(''SchemaName'', PStr schema_name), (''DataFormat'', PStr format),
               (''LatestSchemaVersion'', PInt latest)])"

definition stub_get_schema_version ::
  "string \<Rightarrow> int \<Rightarrow> (string \<times> string \<times> string) list \<Rightarrow> string \<Rightarrow> string \<Rightarrow> pyval \<Rightarrow> exn + pydict" where
  "stub_get_schema_version name latest schemas registry schema_name version_number =
     (case (if registry = name \<and> version_number = PInt latest
            then map_of schemas schema_name else None) of
        None \<Rightarrow> Inl (not_found ''GetSchemaVersion'')
      | Some (format, text) \<Rightarrow>
          Inr [(''SchemaDefinition'', PStr text), (''DataFormat'', PStr format),
               (''VersionNumber'', version_number)])"

definition stub_client ::
  "string \<Rightarrow> int \<Rightarrow> (string \<times> string \<times> string) list \<Rightarrow> GlueSchemaRegistryClient" where
  "stub_client name latest schemas =
     \<lparr>registry_name = name,
      glue_client = \<lparr>glue_get_schema = stub_get_schema name latest schemas,
                     glue_get_schema_version = stub_get_schema_version name latest schemas\<rparr>\<rparr>"

definition avro_schema_text :: string where
  \<open>avro_schema_text = ''{"type":"record","name":"SalesforceAudit","fields":[{"name":"eventId","type":"string"},{"name":"eventName","type":"string"},{"name":"timestamp","type":"long"},{"name":"eventDetails","type":"string"}]}''\<close>

definition avro_schema_dict :: pyval where
  "avro_schema_dict = PDict
     [(''type'', PStr ''record''), (''name'', PStr ''SalesforceAudit''),
      (''fields'', PList
         [PDict [(''name'', PStr ''eventId''), (''type'', PStr ''string'')],
          PDict [(''name'', PStr ''eventName''), (''type'', PStr ''string'')],
          PDict [(''name'', PStr ''timestamp''), (''type'', PStr ''long'')],
          PDict [(''name'', PStr ''eventDetails''), (''type'', PStr ''string'')]])]"

definition json_schema_text :: string where
  \<open>json_schema_text = ''{"type":"object","required":["eventId"]}''\<close>

definition protobuf_schema_text :: string where
  \<open>protobuf_schema_text = ''syntax = "proto3"; message SalesforceAudit { string eventId = 1; }''\<close>

text \<open>An Avro definition of an earlier shape of the record, without \<open>eventDetails\<close>.\<close>

definition short_schema_text :: string where
  \<open>short_schema_text = ''{"type":"record","name":"SalesforceAudit","fields":[{"name":"eventId","type":"string"},{"name":"eventName","type":"string"},{"name":"timestamp","type":"long"}]}''\<close>

definition demo_schemas :: "(string \<times> string \<times> string) list" where
  "demo_schemas =
     [(''SalesforceAudit'', ''AVRO'', avro_schema_text),
      (''SalesAuditJSON'', ''JSON'', json_schema_text),
      (''SalesforceAuditProto'', ''PROTOBUF'', protobuf_schema_text),
      (''SalesforceAuditShort'', ''AVRO'', short_schema_text)]"

definition demo_client :: GlueSchemaRegistryClient where
  "demo_client = stub_client ''demo-registry'' 1 demo_schemas"

text \<open>A second registry: other name, other version number, the same Avro definition,
  and another definition under the name of the JSON schema.\<close>

definition replica_client :: GlueSchemaRegistryClient where
  "replica_client = stub_client ''replica-registry'' 7
     [(''Audit'', ''AVRO'', avro_schema_text), (''SalesAuditJSON'', ''JSON'', ''{}'')]"

text \<open>A registry that cannot be reached: the SDK raises before any response exists,
  and what it raises is not a \<open>ClientError\<close>.\<close>

definition connection_error :: exn where
  "connection_error =
     Exn (OtherException ''EndpointConnectionError'') ''Could not connect to the endpoint URL''"

definition unreachable_client :: GlueSchemaRegistryClient where
  "unreachable_client =
     \<lparr>registry_name = ''demo-registry'',
      glue_client =
        \<lparr>glue_get_schema = (\<lambda>registry schema_name. Inl connection_error),
         glue_get_schema_version = (\<lambda>registry schema_name version_number. Inl connection_error)\<rparr>\<rparr>"

text \<open>The first record of the repository's round-trip tests.\<close>

definition evt_001 :: SalesforceAudit where
  "evt_001 =
     \<lparr>event_id = PStr ''evt-001'', event_name = PStr ''Create'',
      timestamp = PInt 1609459200000, event_details = PStr ''Created new account''\<rparr>"

text \<open>Its Avro row under the schema above, and its JSON text as \<open>json.dumps\<close> lays it out.\<close>

definition evt_001_row :: "byte list" where
  "evt_001_row =
     [14, 101, 118, 116, 45, 48, 48, 49,
      12, 67, 114, 101, 97, 116, 101,
      128, 192, 243, 179, 215, 93,
      38, 67, 114, 101, 97, 116, 101, 100, 32, 110, 101, 119, 32, 97, 99, 99, 111, 117, 110, 116]"

definition evt_001_json :: string where
  \<open>evt_001_json = ''{"eventId": "evt-001", "eventName": "Create", "timestamp": 1609459200000, "eventDetails": "Created new account"}''\<close>

text \<open>The responses of the demo registry for its JSON schema.\<close>

definition json_version_response :: pydict where
  "json_version_response =
     [(''SchemaDefinition'', PStr json_schema_text), (''DataFormat'', PStr ''JSON''),
      (''VersionNumber'', PInt 1)]"

subsection \<open>Matching definitions\<close>









section \<open>Basic facts\<close>

lemma and_then_Inr_iff: "and_then m f = Inr y \<longleftrightarrow> (\<exists>x. m = Inr x \<and> f x = Inr y)"
  by (cases m) auto

lemma and_then_Inl_iff:
  "and_then m f = Inl e \<longleftrightarrow> m = Inl e \<or> (\<exists>x. m = Inr x \<and> f x = Inl e)"
  by (cases m) auto

lemma and_then_assoc: "and_then (and_then m f) g = and_then m (\<lambda>x. and_then (f x) g)"
  by (cases m) auto

lemma except_Exception_Inl:
  "except_Exception p (Inl e) = Inl (Exn SchemaRegistryException (p @ exn_str e))"
  by (simp add: except_Exception_def)

lemma except_Exception_Inr: "except_Exception p (Inr x) = Inr x"
  by (simp add: except_Exception_def)

lemma except_Exception_Inr_iff: "except_Exception p m = Inr x \<longleftrightarrow> m = Inr x"
  by (cases m) (auto simp: except_Exception_def)

lemma except_Exception_cases:
  "(\<exists>x. m = Inr x \<and> except_Exception p m = Inr x) \<or>
   (\<exists>e. m = Inl e \<and> except_Exception p m = Inl (Exn SchemaRegistryException (p @ exn_str e)))"
  by (cases m) (auto simp: except_Exception_def)

lemma post_init_Inr_iff: "post_init r = Inr u \<longleftrightarrow> valid_record r"
  by (auto simp: post_init_def valid_record_def)

lemma init_Inr_iff:
  "SalesforceAudit_init a b t d = Inr r \<longleftrightarrow>
     r = \<lparr>event_id = a, event_name = b, timestamp = t, event_details = d\<rparr> \<and>
     isinstance_int t \<and> 0 \<le> int_value t"
  by (auto simp: SalesforceAudit_init_def post_init_def Let_def)

lemma init_valid: "SalesforceAudit_init a b t d = Inr r \<Longrightarrow> valid_record r"
  by (auto simp: init_Inr_iff valid_record_def)

lemma init_of_valid:
  "valid_record r \<Longrightarrow>
   SalesforceAudit_init (event_id r) (event_name r) (timestamp r) (event_details r) = Inr r"
  by (simp add: init_Inr_iff valid_record_def)

lemma init_Inl_cases:
  "SalesforceAudit_init a b t d = Inl e \<longleftrightarrow>
     (\<not> isinstance_int t \<and> e = Exn ValueError ''timestamp must be an integer'') \<or>
     (isinstance_int t \<and> int_value t < 0 \<and> e = Exn ValueError ''timestamp must be non-negative'')"
  by (auto simp: SalesforceAudit_init_def post_init_def Let_def)

lemma wire_mapping_eq: "wire_mapping r = to_dict r"
  by (simp add: wire_mapping_def to_dict_def field_names_def)

lemma getitem_to_dict:
  "py_getitem (to_dict r) ''eventId'' = Inr (event_id r)"
  "py_getitem (to_dict r) ''eventName'' = Inr (event_name r)"
  "py_getitem (to_dict r) ''timestamp'' = Inr (timestamp r)"
  "py_getitem (to_dict r) ''eventDetails'' = Inr (event_details r)"
  by (simp_all add: to_dict_def dict_getitem_def)

lemma same_fields_to_dict:
  "same_fields row (to_dict r) \<longleftrightarrow>
     py_getitem row ''eventId'' = Inr (event_id r) \<and>
     py_getitem row ''eventName'' = Inr (event_name r) \<and>
     py_getitem row ''timestamp'' = Inr (timestamp r) \<and>
     py_getitem row ''eventDetails'' = Inr (event_details r)"
  by (simp add: same_fields_def field_names_def getitem_to_dict)

lemma getitem_Inr_get:
  "py_getitem row k = Inr v \<Longrightarrow> py_get row k dflt = Inr v"
  by (cases row) (auto simp: dict_getitem_def split: option.splits)

text \<open>The operations of the adapters, with the three fetch statements taken together.\<close>

lemma fetch_schema_definition_unfold:
  "fetch_schema_definition c n =
     and_then (get_schema c n) (\<lambda>schema_response.
     and_then (dict_getitem schema_response ''LatestSchemaVersion'') (\<lambda>latest_version.
     and_then (get_schema_version c n latest_version) (\<lambda>schema_version_response.
     dict_getitem schema_version_response ''SchemaDefinition'')))"
  by (simp add: fetch_schema_definition_def fetch_schema_version_def and_then_assoc)

lemma avro_serialize_try_eq:
  "AvroSerializer_serialize_try lib c n r =
     and_then (fetch_schema_definition c n) (\<lambda>sd.
     and_then (json_loads lib sd) (\<lambda>sj.
     and_then (parse_schema lib sj) (\<lambda>sch.
     schemaless_writer lib sch (to_dict r))))"
  by (simp add: AvroSerializer_serialize_try_def fetch_schema_definition_unfold and_then_assoc
      to_dict_def)

lemma avro_deserialize_try_eq:
  "AvroSerializer_deserialize_try lib c n data =
     and_then (fetch_schema_definition c n) (\<lambda>sd.
     and_then (json_loads lib sd) (\<lambda>sj.
     and_then (parse_schema lib sj) (\<lambda>sch.
     and_then (schemaless_reader lib data sch) record_of_row)))"
  by (simp add: AvroSerializer_deserialize_try_def fetch_schema_definition_unfold and_then_assoc
      record_of_row_def [abs_def])

lemma json_serialize_try_eq:
  "JsonSerializer_serialize_try lib c n r =
     and_then (fetch_schema_version c n) (\<lambda>resp.
     and_then (json_dumps lib (to_dict r)) (str_encode_utf8 lib))"
  by (simp add: JsonSerializer_serialize_try_def fetch_schema_version_def and_then_assoc)

lemma json_deserialize_try_eq:
  "JsonSerializer_deserialize_try lib c n data =
     and_then (fetch_schema_version c n) (\<lambda>resp.
     and_then (bytes_decode_utf8 lib data) (\<lambda>s.
     and_then (json_loads lib (PStr s)) from_dict))"
  by (simp add: JsonSerializer_deserialize_try_def fetch_schema_version_def and_then_assoc)

lemmas adapter_eqs =
  AvroSerializer_serialize_def AvroSerializer_deserialize_def
  JsonSerializer_serialize_def JsonSerializer_deserialize_def
  avro_serialize_try_eq avro_deserialize_try_eq json_serialize_try_eq json_deserialize_try_eq

lemma record_of_row_same_fields:
  "same_fields row (to_dict r) \<Longrightarrow> valid_record r \<Longrightarrow> record_of_row row = Inr r"
  by (simp add: same_fields_to_dict record_of_row_def init_of_valid)

lemma from_dict_same_fields:
  "same_fields row (to_dict r) \<Longrightarrow> valid_record r \<Longrightarrow> from_dict row = Inr r"
  by (simp add: same_fields_to_dict from_dict_def getitem_Inr_get init_of_valid)

lemma record_of_row_valid: "record_of_row row = Inr r \<Longrightarrow> valid_record r"
  by (auto simp: record_of_row_def and_then_Inr_iff dest: init_valid)

lemma from_dict_valid: "from_dict data = Inr r \<Longrightarrow> valid_record r"
  by (auto simp: from_dict_def and_then_Inr_iff dest: init_valid)

lemma from_dict_PDict:
  "from_dict (PDict d) =
     SalesforceAudit_init
       (case map_of d ''eventId'' of None \<Rightarrow> PStr [] | Some v \<Rightarrow> v)
       (case map_of d ''eventName'' of None \<Rightarrow> PStr [] | Some v \<Rightarrow> v)
       (case map_of d ''timestamp'' of None \<Rightarrow> PInt 0 | Some v \<Rightarrow> v)
       (case map_of d ''eventDetails'' of None \<Rightarrow> PStr [] | Some v \<Rightarrow> v)"
  by (simp add: from_dict_def)

lemma from_dict_Inr_PDict: "from_dict data = Inr r \<Longrightarrow> \<exists>d. data = PDict d"
  by (cases data) (simp_all add: from_dict_def)


section \<open>Facts about the adapters\<close>

lemma avro_deserialize_valid: "AvroSerializer_deserialize lib c n data = Inr r \<Longrightarrow> valid_record r"
  by (auto simp: adapter_eqs except_Exception_Inr_iff and_then_Inr_iff dest: record_of_row_valid)

lemma json_deserialize_valid: "JsonSerializer_deserialize lib c n data = Inr r \<Longrightarrow> valid_record r"
  by (auto simp: adapter_eqs except_Exception_Inr_iff and_then_Inr_iff dest: from_dict_valid)

section \<open>The reference instance at concrete inputs\<close>

lemma demo_fetch_avro:
  "fetch_schema_definition demo_client ''SalesforceAudit'' = Inr (PStr avro_schema_text)"
  by code_simp

lemma demo_fetch_json:
  "fetch_schema_version demo_client ''SalesAuditJSON'' = Inr json_version_response"
  by code_simp

lemma reference_schema:
  "json_loads reference_lib (PStr avro_schema_text) = Inr avro_schema_dict"
  "parse_schema reference_lib avro_schema_dict = Inr avro_schema_dict"
  by code_simp+


section \<open>The codecs read back what they wrote\<close>

subsection \<open>UTF-8\<close>





subsection \<open>Avro values\<close>







subsection \<open>Avro rows\<close>








subsection \<open>JSON text\<close>
























section \<open>Round trip\<close>

text \<open>
  Whatever the libraries are: the adapters give the record back once the codec gives
  back, under the four names, what it was given.
\<close>

lemma round_trip_of_codec:
  assumes "valid_record r"
  shows "(fetch_schema_definition c n = Inr sd \<and> json_loads lib sd = Inr sj \<and>
          parse_schema lib sj = Inr sch \<and> schemaless_writer lib sch (to_dict r) = Inr bs \<and>
          schemaless_reader lib bs sch = Inr row \<and> same_fields row (to_dict r) \<longrightarrow>
            AvroSerializer_serialize lib c n r = Inr bs \<and>
            AvroSerializer_deserialize lib c n bs = Inr r \<and>
            avro_round_trip lib c n r = Inr r) \<and>
         (fetch_schema_version c' n' = Inr resp \<and> json_dumps lib (to_dict r) = Inr s \<and>
          str_encode_utf8 lib s = Inr bs' \<and> bytes_decode_utf8 lib bs' = Inr s' \<and>
          json_loads lib (PStr s') = Inr d \<and> same_fields d (to_dict r) \<longrightarrow>
            JsonSerializer_serialize lib c' n' r = Inr bs' \<and>
            JsonSerializer_deserialize lib c' n' bs' = Inr r \<and>
            json_round_trip lib c' n' r = Inr r)"
  using assms
  by (simp add: adapter_eqs avro_round_trip_def json_round_trip_def except_Exception_Inr
      except_Exception_Inr_iff record_of_row_same_fields from_dict_same_fields)




section \<open>Failures of the binary adapter\<close>

text \<open>
  C2.  Whatever the library, the registry, the schema name, the record and the bytes:
  a failure of the schema fetch (of either remote call or of either key of the
  responses), of the parse of the definition, of the row encoder, of the row decoder
  (which is where malformed or truncated bytes fail) or of the reconstruction of the
  record makes the operation of the binary adapter fail with one
  \<open>SchemaRegistryException\<close> whose text is the operation's prefix followed by the text
  of that cause.  Each operation either returns its result or fails in this way, so a
  failed deserialize returns no record.
\<close>

theorem avro_failure_is_wrapped:
  "(get_schema c n = Inl e \<longrightarrow> fetch_schema_definition c n = Inl e) \<and>
   (get_schema c n = Inr resp \<and> dict_getitem resp ''LatestSchemaVersion'' = Inl e \<longrightarrow>
      fetch_schema_definition c n = Inl e) \<and>
   (get_schema c n = Inr resp \<and> dict_getitem resp ''LatestSchemaVersion'' = Inr v \<and>
    get_schema_version c n v = Inl e \<longrightarrow> fetch_schema_definition c n = Inl e) \<and>
   (get_schema c n = Inr resp \<and> dict_getitem resp ''LatestSchemaVersion'' = Inr v \<and>
    get_schema_version c n v = Inr vresp \<and> dict_getitem vresp ''SchemaDefinition'' = Inl e \<longrightarrow>
      fetch_schema_definition c n = Inl e) \<and>
   (fetch_schema_definition c n = Inl e \<or>
    fetch_schema_definition c n = Inr sd \<and> json_loads lib sd = Inl e \<or>
    fetch_schema_definition c n = Inr sd \<and> json_loads lib sd = Inr sj \<and> parse_schema lib sj = Inl e \<or>
    fetch_schema_definition c n = Inr sd \<and> json_loads lib sd = Inr sj \<and> parse_schema lib sj = Inr sch \<and>
      schemaless_writer lib sch (to_dict r) = Inl e \<longrightarrow>
      AvroSerializer_serialize lib c n r =
        Inl (Exn SchemaRegistryException (''Failed to serialize SalesforceAudit: '' @ exn_str e))) \<and>
   (fetch_schema_definition c n = Inl e \<or>
    fetch_schema_definition c n = Inr sd \<and> json_loads lib sd = Inl e \<or>
    fetch_schema_definition c n = Inr sd \<and> json_loads lib sd = Inr sj \<and> parse_schema lib sj = Inl e \<or>
    fetch_schema_definition c n = Inr sd \<and> json_loads lib sd = Inr sj \<and> parse_schema lib sj = Inr sch \<and>
      schemaless_reader lib data sch = Inl e \<or>
    fetch_schema_definition c n = Inr sd \<and> json_loads lib sd = Inr sj \<and> parse_schema lib sj = Inr sch \<and>
      schemaless_reader lib data sch = Inr row \<and> record_of_row row = Inl e \<longrightarrow>
      AvroSerializer_deserialize lib c n data =
        Inl (Exn SchemaRegistryException (''Failed to deserialize SalesforceAudit: '' @ exn_str e))) \<and>
   ((\<exists>bs. AvroSerializer_serialize lib c n r = Inr bs) \<or>
    (\<exists>cause. AvroSerializer_serialize lib c n r =
       Inl (Exn SchemaRegistryException (''Failed to serialize SalesforceAudit: '' @ exn_str cause)))) \<and>
   ((\<exists>rec. AvroSerializer_deserialize lib c n data = Inr rec) \<or>
    (\<exists>cause. AvroSerializer_deserialize lib c n data =
       Inl (Exn SchemaRegistryException (''Failed to deserialize SalesforceAudit: '' @ exn_str cause))))"
proof (intro conjI)
  show "(\<exists>bs. AvroSerializer_serialize lib c n r = Inr bs) \<or>
    (\<exists>cause. AvroSerializer_serialize lib c n r =
       Inl (Exn SchemaRegistryException (''Failed to serialize SalesforceAudit: '' @ exn_str cause)))"
    unfolding AvroSerializer_serialize_def
    using except_Exception_cases [of "AvroSerializer_serialize_try lib c n r"] by blast
  show "(\<exists>rec. AvroSerializer_deserialize lib c n data = Inr rec) \<or>
    (\<exists>cause. AvroSerializer_deserialize lib c n data =
       Inl (Exn SchemaRegistryException (''Failed to deserialize SalesforceAudit: '' @ exn_str cause)))"
    unfolding AvroSerializer_deserialize_def
    using except_Exception_cases [of "AvroSerializer_deserialize_try lib c n data"] by blast
qed (auto simp: adapter_eqs fetch_schema_definition_unfold except_Exception_Inl)

theorem avro_failure_witness:
  "schemaless_reader reference_lib [1, 2, 3, 4, 5] avro_schema_dict =
     Inl (Exn (OtherException ''EOFError'') ''the row ends before the schema does'') \<and>
   AvroSerializer_deserialize reference_lib demo_client ''SalesforceAudit'' [1, 2, 3, 4, 5] =
     Inl (Exn SchemaRegistryException
            ''Failed to deserialize SalesforceAudit: the row ends before the schema does'') \<and>
   get_schema demo_client ''Unknown'' =
     Inl (Exn SchemaRegistryException (''Failed to get schema: '' @ exn_str (not_found ''GetSchema''))) \<and>
   AvroSerializer_serialize reference_lib demo_client ''Unknown'' evt_001 =
     Inl (Exn SchemaRegistryException
            (''Failed to serialize SalesforceAudit: Failed to get schema: '' @
             exn_str (not_found ''GetSchema'')))"
proof -
  have rd: "schemaless_reader reference_lib [1, 2, 3, 4, 5] avro_schema_dict =
     Inl (Exn (OtherException ''EOFError'') ''the row ends before the schema does'')"
    by code_simp
  have gs: "get_schema demo_client ''Unknown'' =
     Inl (Exn SchemaRegistryException (''Failed to get schema: '' @ exn_str (not_found ''GetSchema'')))"
    by code_simp
  from avro_failure_is_wrapped [where lib = reference_lib and c = demo_client
      and n = "''SalesforceAudit''" and data = "[1, 2, 3, 4, 5]"
      and sd = "PStr avro_schema_text" and sj = avro_schema_dict and sch = avro_schema_dict
      and e = "Exn (OtherException ''EOFError'') ''the row ends before the schema does''"]
    demo_fetch_avro reference_schema rd
  have d: "AvroSerializer_deserialize reference_lib demo_client ''SalesforceAudit'' [1, 2, 3, 4, 5] =
     Inl (Exn SchemaRegistryException (''Failed to deserialize SalesforceAudit: '' @
       exn_str (Exn (OtherException ''EOFError'') ''the row ends before the schema does'')))"
    by blast
  from avro_failure_is_wrapped [where lib = reference_lib and c = demo_client
      and n = "''Unknown''" and r = evt_001
      and e = "Exn SchemaRegistryException (''Failed to get schema: '' @ exn_str (not_found ''GetSchema''))"]
    gs
  have s: "AvroSerializer_serialize reference_lib demo_client ''Unknown'' evt_001 =
     Inl (Exn SchemaRegistryException (''Failed to serialize SalesforceAudit: '' @
       exn_str (Exn SchemaRegistryException
         (''Failed to get schema: '' @ exn_str (not_found ''GetSchema'')))))"
    by blast
  from rd gs d s show ?thesis by simp
qed

section \<open>Lenient reconstruction\<close>

text \<open>
  C3, as the code has it.  If the fetch succeeds and the payload decodes to a JSON
  object whose \<open>timestamp\<close> member is missing or is a non-negative integer, the textual
  deserialize returns the record that has, for each of the four names, the member's
  value, or the default where the member is missing: the empty text for \<open>eventId\<close>,
  \<open>eventName\<close> and \<open>eventDetails\<close>, zero for \<open>timestamp\<close>.  So an object with the one
  member \<open>eventId = x\<close> gives the record \<open>(x, empty, 0, empty)\<close>.
\<close>

theorem json_deserialize_defaults:
  assumes "fetch_schema_version c n = Inr resp"
    and "bytes_decode_utf8 lib data = Inr s"
    and "json_loads lib (PStr s) = Inr (PDict d)"
  shows "((case map_of d ''timestamp'' of None \<Rightarrow> True | Some t \<Rightarrow> isinstance_int t \<and> 0 \<le> int_value t) \<longrightarrow>
          JsonSerializer_deserialize lib c n data =
            Inr \<lparr>event_id = (case map_of d ''eventId'' of None \<Rightarrow> PStr [] | Some v \<Rightarrow> v),
                 event_name = (case map_of d ''eventName'' of None \<Rightarrow> PStr [] | Some v \<Rightarrow> v),
                 timestamp = (case map_of d ''timestamp'' of None \<Rightarrow> PInt 0 | Some v \<Rightarrow> v),
                 event_details = (case map_of d ''eventDetails'' of None \<Rightarrow> PStr [] | Some v \<Rightarrow> v)\<rparr>) \<and>
         (d = [(''eventId'', PStr x)] \<longrightarrow>
          JsonSerializer_deserialize lib c n data =
            Inr \<lparr>event_id = PStr x, event_name = PStr [], timestamp = PInt 0, event_details = PStr []\<rparr>)"
  using assms
  by (auto simp: adapter_eqs except_Exception_Inr_iff from_dict_PDict init_Inr_iff
      split: option.splits)

theorem lenient_default_witness:
  \<open>bytes_decode_utf8 reference_lib (utf8 ''{"eventId": "x"}'') = Inr ''{"eventId": "x"}'' \<and>
   json_loads reference_lib (PStr ''{"eventId": "x"}'') = Inr (PDict [(''eventId'', PStr ''x'')]) \<and>
   JsonSerializer_deserialize reference_lib demo_client ''SalesAuditJSON'' (utf8 ''{"eventId": "x"}'') =
     Inr \<lparr>event_id = PStr ''x'', event_name = PStr [], timestamp = PInt 0, event_details = PStr []\<rparr>\<close>
proof -
  have b: \<open>bytes_decode_utf8 reference_lib (utf8 ''{"eventId": "x"}'') = Inr ''{"eventId": "x"}''\<close>
    by code_simp
  have l: \<open>json_loads reference_lib (PStr ''{"eventId": "x"}'') = Inr (PDict [(''eventId'', PStr ''x'')])\<close>
    by code_simp
  from json_deserialize_defaults [OF demo_fetch_json b l, of "''x''"] b l
  show ?thesis by simp
qed

text \<open>
  C3 as it was stated fails: an object whose \<open>timestamp\<close> member is negative is a JSON
  object payload, and its deserialization fails in the validation of the record.  So
  does that of any payload when the schema cannot be fetched.
\<close>

theorem negative_timestamp_counterexample:
  \<open>json_loads reference_lib (PStr ''{"timestamp": -1}'') = Inr (PDict [(''timestamp'', PInt (- 1))]) \<and>
   JsonSerializer_deserialize reference_lib demo_client ''SalesAuditJSON'' (utf8 ''{"timestamp": -1}'') =
     Inl (Exn SchemaRegistryException
            ''Failed to deserialize JSON to SalesforceAudit: timestamp must be non-negative'') \<and>
   JsonSerializer_deserialize reference_lib demo_client ''Unknown'' (utf8 ''{"eventId": "x"}'') =
     Inl (Exn SchemaRegistryException
            (''Failed to deserialize JSON to SalesforceAudit: Failed to get schema: '' @
             exn_str (not_found ''GetSchema'')))\<close>
proof -
  have \<open>json_loads reference_lib (PStr ''{"timestamp": -1}'') = Inr (PDict [(''timestamp'', PInt (- 1))])\<close>
    by code_simp
  moreover have \<open>JsonSerializer_deserialize reference_lib demo_client ''SalesAuditJSON'' (utf8 ''{"timestamp": -1}'') =
     Inl (Exn SchemaRegistryException
            ''Failed to deserialize JSON to SalesforceAudit: timestamp must be non-negative'')\<close>
    by code_simp
  moreover have \<open>JsonSerializer_deserialize reference_lib demo_client ''Unknown'' (utf8 ''{"eventId": "x"}'') =
     Inl (Exn SchemaRegistryException
            (''Failed to deserialize JSON to SalesforceAudit: Failed to get schema: '' @
             exn_str (not_found ''GetSchema'')))\<close>
    by code_simp
  ultimately show ?thesis by simp
qed

section \<open>Construction\<close>

text \<open>
  C4.  Constructing a record fails with the validation error (a \<open>ValueError\<close>) exactly
  when the timestamp is negative or is not an integer, and then with no other error;
  with timestamp \<open>-1\<close> it fails; with a non-negative integer timestamp and any three
  texts, the empty one included, it returns the record of these four values.  An
  integer is what \<open>isinstance(_, int)\<close> accepts, which in Python includes the bools.
\<close>

theorem construction_fails_iff_timestamp_invalid:
  "((\<exists>m. SalesforceAudit_init eid ename ts details = Inl (Exn ValueError m)) \<longleftrightarrow>
      (\<not> isinstance_int ts \<or> int_value ts < 0)) \<and>
   (\<forall>e. SalesforceAudit_init eid ename ts details = Inl e \<longrightarrow> exn_class_of e = ValueError) \<and>
   SalesforceAudit_init eid ename (PInt (- 1)) details =
      Inl (Exn ValueError ''timestamp must be non-negative'') \<and>
   (0 \<le> k \<longrightarrow>
      SalesforceAudit_init (PStr a) (PStr b) (PInt k) (PStr c) =
        Inr \<lparr>event_id = PStr a, event_name = PStr b, timestamp = PInt k, event_details = PStr c\<rparr>)"
proof (intro conjI allI impI)
  show "(\<exists>m. SalesforceAudit_init eid ename ts details = Inl (Exn ValueError m)) \<longleftrightarrow>
      (\<not> isinstance_int ts \<or> int_value ts < 0)"
    by (auto simp: init_Inl_cases)
next
  fix e
  assume "SalesforceAudit_init eid ename ts details = Inl e"
  then show "exn_class_of e = ValueError"
    by (auto simp: init_Inl_cases)
next
  show "SalesforceAudit_init eid ename (PInt (- 1)) details =
      Inl (Exn ValueError ''timestamp must be non-negative'')"
    by (simp add: init_Inl_cases)
next
  assume "0 \<le> k"
  then show "SalesforceAudit_init (PStr a) (PStr b) (PInt k) (PStr c) =
        Inr \<lparr>event_id = PStr a, event_name = PStr b, timestamp = PInt k, event_details = PStr c\<rparr>"
    by (simp add: init_Inr_iff)
qed

theorem construction_witness:
  "(0::int) \<le> 0 \<and>
   SalesforceAudit_init (PStr []) (PStr []) (PInt 0) (PStr []) =
     Inr \<lparr>event_id = PStr [], event_name = PStr [], timestamp = PInt 0, event_details = PStr []\<rparr> \<and>
   \<not> isinstance_int (PStr ''12'') \<and>
   (\<exists>m. SalesforceAudit_init (PStr ''a'') (PStr ''b'') (PStr ''12'') (PStr ''c'') = Inl (Exn ValueError m))"
proof -
  have h: "(0::int) \<le> 0" by simp
  have n: "\<not> isinstance_int (PStr ''12'')" by simp
  from construction_fails_iff_timestamp_invalid [of "PStr ''a''" "PStr ''b''" "PStr ''12''" "PStr ''c''" 0 "[]" "[]" "[]"]
  show ?thesis using h n by blast
qed

section \<open>The names on the wire\<close>

lemma all_field_names:
  "(\<forall>(k, f) \<in> set field_names. P k f) \<longleftrightarrow>
     P ''eventId'' event_id \<and> P ''eventName'' event_name \<and>
     P ''timestamp'' timestamp \<and> P ''eventDetails'' event_details"
  by (simp add: field_names_def)

lemma record_of_row_Inr_iff:
  "record_of_row row = Inr r \<longleftrightarrow>
     (\<forall>(k, f) \<in> set field_names. py_getitem row k = Inr (f r)) \<and> valid_record r"
proof
  assume "record_of_row row = Inr r"
  then show "(\<forall>(k, f) \<in> set field_names. py_getitem row k = Inr (f r)) \<and> valid_record r"
    by (auto simp: record_of_row_def and_then_Inr_iff init_Inr_iff all_field_names valid_record_def)
next
  assume a: "(\<forall>(k, f) \<in> set field_names. py_getitem row k = Inr (f r)) \<and> valid_record r"
  then have "valid_record r" by simp
  from init_of_valid [OF this] a show "record_of_row row = Inr r"
    by (simp add: record_of_row_def all_field_names)
qed

lemma from_dict_Inr_iff:
  "from_dict (PDict d) = Inr r \<longleftrightarrow>
     (\<forall>(k, f) \<in> set field_names. f r = (case map_of d k of None \<Rightarrow> default_of k | Some v \<Rightarrow> v)) \<and>
     valid_record r"
proof
  assume "from_dict (PDict d) = Inr r"
  then show "(\<forall>(k, f) \<in> set field_names.
      f r = (case map_of d k of None \<Rightarrow> default_of k | Some v \<Rightarrow> v)) \<and> valid_record r"
    unfolding from_dict_PDict
    by (auto simp: init_Inr_iff all_field_names default_of_def valid_record_def split: option.splits)
next
  assume a: "(\<forall>(k, f) \<in> set field_names.
      f r = (case map_of d k of None \<Rightarrow> default_of k | Some v \<Rightarrow> v)) \<and> valid_record r"
  then have v: "valid_record r" by simp
  from a have "event_id r = (case map_of d ''eventId'' of None \<Rightarrow> PStr [] | Some v \<Rightarrow> v)"
    "event_name r = (case map_of d ''eventName'' of None \<Rightarrow> PStr [] | Some v \<Rightarrow> v)"
    "timestamp r = (case map_of d ''timestamp'' of None \<Rightarrow> PInt 0 | Some v \<Rightarrow> v)"
    "event_details r = (case map_of d ''eventDetails'' of None \<Rightarrow> PStr [] | Some v \<Rightarrow> v)"
    by (simp_all add: all_field_names default_of_def split: option.splits)
  with init_of_valid [OF v] show "from_dict (PDict d) = Inr r"
    unfolding from_dict_PDict by simp
qed

text \<open>
  C5.  Both adapters write and read a record through the one table of names
  \<open>event_id - eventId\<close>, \<open>event_name - eventName\<close>, \<open>timestamp - timestamp\<close>,
  \<open>event_details - eventDetails\<close>.  A serialize returns bytes exactly when the fetch
  succeeds and the library's encoder makes these bytes of the mapping that holds, under
  exactly these four names, the four fields of the record.  A deserialize returns a
  record exactly when the fetch succeeds, the library's decoder gives a mapping, the
  record is valid and each of its fields is the value the mapping holds under the
  field's wire name (for the textual adapter the default where the name is missing).
\<close>

theorem wire_names_are_fixed:
  "(AvroSerializer_serialize lib c n r = Inr bs \<longleftrightarrow>
      (\<exists>sd sj sch. fetch_schema_definition c n = Inr sd \<and> json_loads lib sd = Inr sj \<and>
         parse_schema lib sj = Inr sch \<and> schemaless_writer lib sch (wire_mapping r) = Inr bs)) \<and>
   (JsonSerializer_serialize lib c n r = Inr bs \<longleftrightarrow>
      (\<exists>resp s. fetch_schema_version c n = Inr resp \<and>
         json_dumps lib (wire_mapping r) = Inr s \<and> str_encode_utf8 lib s = Inr bs)) \<and>
   (AvroSerializer_deserialize lib c n data = Inr r \<longleftrightarrow>
      (\<exists>sd sj sch row. fetch_schema_definition c n = Inr sd \<and> json_loads lib sd = Inr sj \<and>
         parse_schema lib sj = Inr sch \<and> schemaless_reader lib data sch = Inr row \<and>
         (\<forall>(k, f) \<in> set field_names. py_getitem row k = Inr (f r)) \<and> valid_record r)) \<and>
   (JsonSerializer_deserialize lib c n data = Inr r \<longleftrightarrow>
      (\<exists>resp s d. fetch_schema_version c n = Inr resp \<and> bytes_decode_utf8 lib data = Inr s \<and>
         json_loads lib (PStr s) = Inr (PDict d) \<and>
         (\<forall>(k, f) \<in> set field_names.
            f r = (case map_of d k of None \<Rightarrow> default_of k | Some v \<Rightarrow> v)) \<and>
         valid_record r))"
proof (intro conjI)
  show "AvroSerializer_serialize lib c n r = Inr bs \<longleftrightarrow>
      (\<exists>sd sj sch. fetch_schema_definition c n = Inr sd \<and> json_loads lib sd = Inr sj \<and>
         parse_schema lib sj = Inr sch \<and> schemaless_writer lib sch (wire_mapping r) = Inr bs)"
    by (simp add: adapter_eqs except_Exception_Inr_iff and_then_Inr_iff wire_mapping_eq)
next
  show "JsonSerializer_serialize lib c n r = Inr bs \<longleftrightarrow>
      (\<exists>resp s. fetch_schema_version c n = Inr resp \<and>
         json_dumps lib (wire_mapping r) = Inr s \<and> str_encode_utf8 lib s = Inr bs)"
    by (simp add: adapter_eqs except_Exception_Inr_iff and_then_Inr_iff wire_mapping_eq)
next
  show "AvroSerializer_deserialize lib c n data = Inr r \<longleftrightarrow>
      (\<exists>sd sj sch row. fetch_schema_definition c n = Inr sd \<and> json_loads lib sd = Inr sj \<and>
         parse_schema lib sj = Inr sch \<and> schemaless_reader lib data sch = Inr row \<and>
         (\<forall>(k, f) \<in> set field_names. py_getitem row k = Inr (f r)) \<and> valid_record r)"
    by (simp add: adapter_eqs except_Exception_Inr_iff and_then_Inr_iff record_of_row_Inr_iff)
next
  have "(\<exists>v. json_loads lib (PStr s) = Inr v \<and> from_dict v = Inr r) \<longleftrightarrow>
      (\<exists>d. json_loads lib (PStr s) = Inr (PDict d) \<and>
         (\<forall>(k, f) \<in> set field_names.
            f r = (case map_of d k of None \<Rightarrow> default_of k | Some v \<Rightarrow> v)) \<and>
         valid_record r)" for s
    using from_dict_Inr_PDict from_dict_Inr_iff by blast
  then show "JsonSerializer_deserialize lib c n data = Inr r \<longleftrightarrow>
      (\<exists>resp s d. fetch_schema_version c n = Inr resp \<and> bytes_decode_utf8 lib data = Inr s \<and>
         json_loads lib (PStr s) = Inr (PDict d) \<and>
         (\<forall>(k, f) \<in> set field_names.
            f r = (case map_of d k of None \<Rightarrow> default_of k | Some v \<Rightarrow> v)) \<and>
         valid_record r)"
    by (simp add: adapter_eqs except_Exception_Inr_iff and_then_Inr_iff)
qed

theorem wire_names_witness:
  "wire_mapping evt_001 =
     PDict [(''eventId'', PStr ''evt-001''), (''eventName'', PStr ''Create''),
            (''timestamp'', PInt 1609459200000), (''eventDetails'', PStr ''Created new account'')] \<and>
   AvroSerializer_serialize reference_lib demo_client ''SalesforceAudit'' evt_001 = Inr evt_001_row \<and>
   (\<exists>sch. schemaless_writer reference_lib sch (wire_mapping evt_001) = Inr evt_001_row) \<and>
   AvroSerializer_deserialize reference_lib demo_client ''SalesforceAudit'' evt_001_row = Inr evt_001 \<and>
   (\<exists>sch row. schemaless_reader reference_lib evt_001_row sch = Inr row \<and>
      py_getitem row ''eventId'' = Inr (PStr ''evt-001'') \<and>
      py_getitem row ''eventName'' = Inr (PStr ''Create'') \<and>
      py_getitem row ''timestamp'' = Inr (PInt 1609459200000) \<and>
      py_getitem row ''eventDetails'' = Inr (PStr ''Created new account'')) \<and>
   JsonSerializer_serialize reference_lib demo_client ''SalesAuditJSON'' evt_001 =
     Inr (utf8 evt_001_json) \<and>
   (\<exists>s. json_dumps reference_lib (wire_mapping evt_001) = Inr s \<and>
      str_encode_utf8 reference_lib s = Inr (utf8 evt_001_json)) \<and>
   JsonSerializer_deserialize reference_lib demo_client ''SalesAuditJSON'' (utf8 evt_001_json) =
     Inr evt_001 \<and>
   (\<exists>s d. bytes_decode_utf8 reference_lib (utf8 evt_001_json) = Inr s \<and>
      json_loads reference_lib (PStr s) = Inr (PDict d) \<and>
      (case map_of d ''eventId'' of None \<Rightarrow> default_of ''eventId'' | Some v \<Rightarrow> v) = PStr ''evt-001'' \<and>
      (case map_of d ''eventName'' of None \<Rightarrow> default_of ''eventName'' | Some v \<Rightarrow> v) = PStr ''Create'' \<and>
      (case map_of d ''timestamp'' of None \<Rightarrow> default_of ''timestamp'' | Some v \<Rightarrow> v) =
        PInt 1609459200000 \<and>
      (case map_of d ''eventDetails'' of None \<Rightarrow> default_of ''eventDetails'' | Some v \<Rightarrow> v) =
        PStr ''Created new account'')"
proof -
  have m: "wire_mapping evt_001 =
     PDict [(''eventId'', PStr ''evt-001''), (''eventName'', PStr ''Create''),
            (''timestamp'', PInt 1609459200000), (''eventDetails'', PStr ''Created new account'')]"
    by (simp add: wire_mapping_def field_names_def evt_001_def)
  have s: "AvroSerializer_serialize reference_lib demo_client ''SalesforceAudit'' evt_001 = Inr evt_001_row"
    by code_simp
  have d: "AvroSerializer_deserialize reference_lib demo_client ''SalesforceAudit'' evt_001_row = Inr evt_001"
    by code_simp
  have js: "JsonSerializer_serialize reference_lib demo_client ''SalesAuditJSON'' evt_001 =
      Inr (utf8 evt_001_json)"
    by code_simp
  have jd: "JsonSerializer_deserialize reference_lib demo_client ''SalesAuditJSON'' (utf8 evt_001_json) =
      Inr evt_001"
    by code_simp
  note t = wire_names_are_fixed [of reference_lib demo_client "''SalesforceAudit''" evt_001
      evt_001_row evt_001_row]
  note u = wire_names_are_fixed [of reference_lib demo_client "''SalesAuditJSON''" evt_001
      "utf8 evt_001_json" "utf8 evt_001_json"]
  from t s have w: "\<exists>sch. schemaless_writer reference_lib sch (wire_mapping evt_001) = Inr evt_001_row"
    by blast
  from t d obtain sch row where "schemaless_reader reference_lib evt_001_row sch = Inr row"
    and "\<forall>(k, f) \<in> set field_names. py_getitem row k = Inr (f evt_001)"
    by blast
  then have "schemaless_reader reference_lib evt_001_row sch = Inr row \<and>
      py_getitem row ''eventId'' = Inr (PStr ''evt-001'') \<and>
      py_getitem row ''eventName'' = Inr (PStr ''Create'') \<and>
      py_getitem row ''timestamp'' = Inr (PInt 1609459200000) \<and>
      py_getitem row ''eventDetails'' = Inr (PStr ''Created new account'')"
    by (simp add: field_names_def evt_001_def)
  then have r: "\<exists>sch row. schemaless_reader reference_lib evt_001_row sch = Inr row \<and>
      py_getitem row ''eventId'' = Inr (PStr ''evt-001'') \<and>
      py_getitem row ''eventName'' = Inr (PStr ''Create'') \<and>
      py_getitem row ''timestamp'' = Inr (PInt 1609459200000) \<and>
      py_getitem row ''eventDetails'' = Inr (PStr ''Created new account'')"
    by blast
  from u js have jw: "\<exists>s. json_dumps reference_lib (wire_mapping evt_001) = Inr s \<and>
      str_encode_utf8 reference_lib s = Inr (utf8 evt_001_json)"
    by blast
  from u jd obtain t0 d0 where "bytes_decode_utf8 reference_lib (utf8 evt_001_json) = Inr t0"
    and "json_loads reference_lib (PStr t0) = Inr (PDict d0)"
    and "\<forall>(k, f) \<in> set field_names.
           f evt_001 = (case map_of d0 k of None \<Rightarrow> default_of k | Some v \<Rightarrow> v)"
    by blast
  then have "bytes_decode_utf8 reference_lib (utf8 evt_001_json) = Inr t0 \<and>
      json_loads reference_lib (PStr t0) = Inr (PDict d0) \<and>
      (case map_of d0 ''eventId'' of None \<Rightarrow> default_of ''eventId'' | Some v \<Rightarrow> v) = PStr ''evt-001'' \<and>
      (case map_of d0 ''eventName'' of None \<Rightarrow> default_of ''eventName'' | Some v \<Rightarrow> v) = PStr ''Create'' \<and>
      (case map_of d0 ''timestamp'' of None \<Rightarrow> default_of ''timestamp'' | Some v \<Rightarrow> v) =
        PInt 1609459200000 \<and>
      (case map_of d0 ''eventDetails'' of None \<Rightarrow> default_of ''eventDetails'' | Some v \<Rightarrow> v) =
        PStr ''Created new account''"
    by (simp add: field_names_def evt_001_def)
  then have jr: "\<exists>s d. bytes_decode_utf8 reference_lib (utf8 evt_001_json) = Inr s \<and>
      json_loads reference_lib (PStr s) = Inr (PDict d) \<and>
      (case map_of d ''eventId'' of None \<Rightarrow> default_of ''eventId'' | Some v \<Rightarrow> v) = PStr ''evt-001'' \<and>
      (case map_of d ''eventName'' of None \<Rightarrow> default_of ''eventName'' | Some v \<Rightarrow> v) = PStr ''Create'' \<and>
      (case map_of d ''timestamp'' of None \<Rightarrow> default_of ''timestamp'' | Some v \<Rightarrow> v) =
        PInt 1609459200000 \<and>
      (case map_of d ''eventDetails'' of None \<Rightarrow> default_of ''eventDetails'' | Some v \<Rightarrow> v) =
        PStr ''Created new account''"
    by blast
  from m s w d r js jw jd jr show ?thesis by blast
qed

section \<open>What the output of serialize depends on\<close>

text \<open>
  C6.  The binary serialize is a function of the record and of the schema definition
  it fetched: two calls with the same record, against registries (or at moments) that
  answer with the same definition, give the same bytes, or fail alike.
\<close>

theorem avro_serialize_deterministic:
  assumes "fetch_schema_definition c1 n1 = Inr sd" and "fetch_schema_definition c2 n2 = Inr sd"
  shows "AvroSerializer_serialize lib c1 n1 r = AvroSerializer_serialize lib c2 n2 r"
proof -
  let ?encoded = "and_then (json_loads lib sd) (\<lambda>sj.
     and_then (parse_schema lib sj) (\<lambda>sch. schemaless_writer lib sch (to_dict r)))"
  have "AvroSerializer_serialize lib c1 n1 r =
      except_Exception ''Failed to serialize SalesforceAudit: '' ?encoded"
    using assms(1) by (simp add: AvroSerializer_serialize_def avro_serialize_try_eq)
  also have "\<dots> = AvroSerializer_serialize lib c2 n2 r"
    using assms(2) by (simp add: AvroSerializer_serialize_def avro_serialize_try_eq)
  finally show ?thesis .
qed

theorem avro_serialize_deterministic_witness:
  "fetch_schema_definition demo_client ''SalesforceAudit'' = Inr (PStr avro_schema_text) \<and>
   fetch_schema_definition replica_client ''Audit'' = Inr (PStr avro_schema_text) \<and>
   AvroSerializer_serialize reference_lib demo_client ''SalesforceAudit'' evt_001 = Inr evt_001_row \<and>
   AvroSerializer_serialize reference_lib replica_client ''Audit'' evt_001 = Inr evt_001_row"
proof -
  have a: "fetch_schema_definition replica_client ''Audit'' = Inr (PStr avro_schema_text)"
    by code_simp
  have b: "AvroSerializer_serialize reference_lib demo_client ''SalesforceAudit'' evt_001 = Inr evt_001_row"
    by code_simp
  from avro_serialize_deterministic [OF demo_fetch_avro a, of reference_lib evt_001]
  show ?thesis using demo_fetch_avro a b by simp
qed

text \<open>
  C9.  The textual serialize does not depend on the schema it fetches: with the same
  record, two calls whose fetches both succeed give the same bytes (or fail alike in
  the printer), whatever the two registries answered.
\<close>

theorem json_serialize_ignores_schema:
  assumes "fetch_schema_version c1 n1 = Inr resp1" and "fetch_schema_version c2 n2 = Inr resp2"
  shows "JsonSerializer_serialize lib c1 n1 r = JsonSerializer_serialize lib c2 n2 r"
proof -
  let ?printed = "and_then (json_dumps lib (to_dict r)) (str_encode_utf8 lib)"
  have "JsonSerializer_serialize lib c1 n1 r =
      except_Exception ''Failed to serialize SalesforceAudit to JSON: '' ?printed"
    using assms(1) by (simp add: JsonSerializer_serialize_def json_serialize_try_eq)
  also have "\<dots> = JsonSerializer_serialize lib c2 n2 r"
    using assms(2) by (simp add: JsonSerializer_serialize_def json_serialize_try_eq)
  finally show ?thesis .
qed

theorem json_serialize_ignores_schema_witness:
  "fetch_schema_version demo_client ''SalesAuditJSON'' = Inr json_version_response \<and>
   fetch_schema_version replica_client ''SalesAuditJSON'' =
     Inr [(''SchemaDefinition'', PStr ''{}''), (''DataFormat'', PStr ''JSON''), (''VersionNumber'', PInt 7)] \<and>
   JsonSerializer_serialize reference_lib demo_client ''SalesAuditJSON'' evt_001 = Inr (utf8 evt_001_json) \<and>
   JsonSerializer_serialize reference_lib replica_client ''SalesAuditJSON'' evt_001 = Inr (utf8 evt_001_json)"
proof -
  have a: "fetch_schema_version replica_client ''SalesAuditJSON'' =
     Inr [(''SchemaDefinition'', PStr ''{}''), (''DataFormat'', PStr ''JSON''), (''VersionNumber'', PInt 7)]"
    by code_simp
  have b: "JsonSerializer_serialize reference_lib demo_client ''SalesAuditJSON'' evt_001 = Inr (utf8 evt_001_json)"
    by code_simp
  from json_serialize_ignores_schema [OF demo_fetch_json a, of reference_lib evt_001]
  show ?thesis using demo_fetch_json a b by simp
qed

section \<open>Records do not change\<close>

text \<open>
  Each operation on the store does what its counterpart on values does, and leaves
  every record of the store as it was: the operations that take a record only read
  its attributes, and those that return one add it to the store.
\<close>

lemma next_do_calling:
  "next_do (calling r) f s = (case r of Inl e \<Rightarrow> (Inl e, s) | Inr x \<Rightarrow> f x s)"
  by (simp add: next_do_def calling_def split: sum.splits)

lemma next_do_getattr: "next_do (getattr self g) f s = f (g (s ! self)) s"
  by (simp add: next_do_def getattr_def)

lemma obj_post_init_eq: "obj_post_init self s = (post_init (s ! self), s)"
  by (simp add: obj_post_init_def post_init_def next_do_getattr raises_def returns_def)

lemma obj_init_eq:
  "obj_init eid ename ts details s =
     (case SalesforceAudit_init eid ename ts details of
        Inl e \<Rightarrow> (Inl e, s)
      | Inr r \<Rightarrow> (Inr (length s), s @ [r]))"
  by (simp add: obj_init_def constructing_def next_do_def new_object_def obj_post_init_eq
      SalesforceAudit_init_def Let_def returns_def split: sum.splits)

lemma obj_to_dict_eq: "obj_to_dict self s = (Inr (to_dict (s ! self)), s)"
  by (simp add: obj_to_dict_def to_dict_def next_do_getattr returns_def)

lemma obj_from_dict_eq:
  "obj_from_dict data s =
     (case from_dict data of
        Inl e \<Rightarrow> (Inl e, s)
      | Inr r \<Rightarrow> (Inr (length s), s @ [r]))"
  by (simp add: obj_from_dict_def from_dict_def next_do_calling obj_init_eq split: sum.splits)

lemma obj_avro_serialize_eq:
  "obj_avro_serialize lib client schema_name self s =
     (AvroSerializer_serialize lib client schema_name (s ! self), s)"
  by (simp add: obj_avro_serialize_def AvroSerializer_serialize_def
      AvroSerializer_serialize_try_def catching_def except_Exception_def
      next_do_calling next_do_getattr calling_def Let_def split: sum.splits)

lemma obj_json_serialize_eq:
  "obj_json_serialize lib client schema_name self s =
     (JsonSerializer_serialize lib client schema_name (s ! self), s)"
  by (simp add: obj_json_serialize_def JsonSerializer_serialize_def
      JsonSerializer_serialize_try_def catching_def except_Exception_def
      next_do_calling next_do_def [of "obj_to_dict self"] obj_to_dict_eq calling_def
      split: sum.splits)

lemma obj_avro_deserialize_eq:
  "obj_avro_deserialize lib client schema_name data s =
     (case AvroSerializer_deserialize lib client schema_name data of
        Inl e \<Rightarrow> (Inl e, s)
      | Inr r \<Rightarrow> (Inr (length s), s @ [r]))"
  by (simp add: obj_avro_deserialize_def AvroSerializer_deserialize_def
      AvroSerializer_deserialize_try_def catching_def except_Exception_def
      next_do_calling obj_init_eq split: sum.splits)

lemma obj_json_deserialize_eq:
  "obj_json_deserialize lib client schema_name data s =
     (case JsonSerializer_deserialize lib client schema_name data of
        Inl e \<Rightarrow> (Inl e, s)
      | Inr r \<Rightarrow> (Inr (length s), s @ [r]))"
  by (simp add: obj_json_deserialize_def JsonSerializer_deserialize_def
      JsonSerializer_deserialize_try_def catching_def except_Exception_def
      next_do_calling obj_from_dict_eq split: sum.splits)

lemmas obj_eqs =
  obj_init_eq obj_to_dict_eq obj_from_dict_eq obj_avro_serialize_eq obj_json_serialize_eq
  obj_avro_deserialize_eq obj_json_deserialize_eq

lemma perform_keeps:
  "i < length s \<Longrightarrow> i < length (snd (perform lib s c)) \<and> snd (perform lib s c) ! i = s ! i"
  by (cases c)
    (auto simp: obj_eqs outcome_def on_record_def nth_append split: sum.splits)

lemma perform_valid:
  "\<forall>r \<in> set s. valid_record r \<Longrightarrow> \<forall>r \<in> set (snd (perform lib s c)). valid_record r"
  by (cases c)
    (auto simp: obj_eqs outcome_def on_record_def split: sum.splits
      dest: init_valid from_dict_valid avro_deserialize_valid json_deserialize_valid)

lemma run_keeps:
  "i < length s \<Longrightarrow> i < length (run lib s cs) \<and> run lib s cs ! i = s ! i"
proof (induction cs arbitrary: s)
  case Nil
  then show ?case by simp
next
  case (Cons c cs)
  from Cons.prems have k: "i < length (snd (perform lib s c))"
    and e: "snd (perform lib s c) ! i = s ! i"
    using perform_keeps by blast+
  from Cons.IH [OF k] e show ?case by simp
qed

lemma run_valid:
  "\<forall>r \<in> set s. valid_record r \<Longrightarrow> \<forall>r \<in> set (run lib s cs). valid_record r"
proof (induction cs arbitrary: s)
  case Nil
  then show ?case by simp
next
  case (Cons c cs)
  from Cons.prems have "\<forall>r \<in> set (snd (perform lib s c)). valid_record r"
    by (rule perform_valid)
  then show ?case using Cons.IH by simp
qed

text \<open>
  C7, as the code has it.  Let \<open>h\<close> be the store a program has after any sequence of
  the operations the repository defines (the constructor, \<open>to_dict\<close>, \<open>from_dict\<close>,
  serialize and deserialize of both adapters), starting with no record.  Whatever such
  operations follow, each working on the store the one before left, every record of
  \<open>h\<close> is still there with the same four fields, and it is valid, although nothing
  checked it again: validity was established when it was constructed, by the caller
  or by a deserialize.
\<close>

theorem operations_keep_records:
  assumes "h = run lib [] cs" and "i < length h"
  shows "i < length (run lib h ds) \<and> run lib h ds ! i = h ! i \<and>
         valid_record (h ! i) \<and> valid_record (run lib h ds ! i)"
proof -
  have "\<forall>r \<in> set h. valid_record r"
    unfolding assms(1) by (rule run_valid) simp
  with assms(2) have v: "valid_record (h ! i)" by simp
  from run_keeps [OF assms(2)] have k: "i < length (run lib h ds)"
    and e: "run lib h ds ! i = h ! i" by blast+
  from k e v show ?thesis by simp
qed

theorem records_witness:
  \<open>run reference_lib []
     [Construct (PStr ''evt-001'') (PStr ''Create'') (PInt 1609459200000) (PStr ''Created new account''),
      Construct (PStr ''evt-002'') (PStr ''Update'') (PInt (- 1)) (PStr ''rejected''),
      Call_json_deserialize demo_client ''SalesAuditJSON'' (utf8 ''{"eventId": "x"}'')] =
     [evt_001,
      \<lparr>event_id = PStr ''x'', event_name = PStr [], timestamp = PInt 0, event_details = PStr []\<rparr>] \<and>
   run reference_lib
     [evt_001,
      \<lparr>event_id = PStr ''x'', event_name = PStr [], timestamp = PInt 0, event_details = PStr []\<rparr>]
     [Call_to_dict 0,
      Call_avro_serialize demo_client ''SalesforceAudit'' 0,
      Call_json_serialize demo_client ''SalesAuditJSON'' 1,
      Call_avro_deserialize demo_client ''SalesforceAudit'' evt_001_row,
      Call_from_dict (PDict [])] ! 0 = evt_001 \<and>
   valid_record evt_001\<close>
proof -
  let ?cs = \<open>[Construct (PStr ''evt-001'') (PStr ''Create'') (PInt 1609459200000) (PStr ''Created new account''),
      Construct (PStr ''evt-002'') (PStr ''Update'') (PInt (- 1)) (PStr ''rejected''),
      Call_json_deserialize demo_client ''SalesAuditJSON'' (utf8 ''{"eventId": "x"}'')]\<close>
  let ?h = "[evt_001,
      \<lparr>event_id = PStr ''x'', event_name = PStr [], timestamp = PInt 0, event_details = PStr []\<rparr>]"
  let ?ds = "[Call_to_dict 0,
      Call_avro_serialize demo_client ''SalesforceAudit'' 0,
      Call_json_serialize demo_client ''SalesAuditJSON'' 1,
      Call_avro_deserialize demo_client ''SalesforceAudit'' evt_001_row,
      Call_from_dict (PDict [])]"
  have h: "run reference_lib [] ?cs = ?h"
    by code_simp
  have i: "(0::nat) < length ?h" by simp
  from operations_keep_records [OF h [symmetric] i, of ?ds] h
  show ?thesis by simp
qed

text \<open>
  C7 as it was stated fails: a record is not immutable.  After its construction a
  caller can assign a negative timestamp to it; nothing validates the assignment, and
  the textual serialize writes the record as it then is.
\<close>

theorem field_assignment_counterexample:
  \<open>SalesforceAudit_init (PStr ''evt-001'') (PStr ''Create'') (PInt 1609459200000)
     (PStr ''Created new account'') = Inr evt_001 \<and>
   timestamp (setattr evt_001 Timestamp (PInt (- 1))) = PInt (- 1) \<and>
   \<not> valid_record (setattr evt_001 Timestamp (PInt (- 1))) \<and>
   JsonSerializer_serialize reference_lib demo_client ''SalesAuditJSON''
       (setattr evt_001 Timestamp (PInt (- 1))) =
     Inr (utf8 ''{"eventId": "evt-001", "eventName": "Create", "timestamp": -1, "eventDetails": "Created new account"}'')\<close>
proof -
  have \<open>JsonSerializer_serialize reference_lib demo_client ''SalesAuditJSON''
       (setattr evt_001 Timestamp (PInt (- 1))) =
     Inr (utf8 ''{"eventId": "evt-001", "eventName": "Create", "timestamp": -1, "eventDetails": "Created new account"}'')\<close>
    by code_simp
  then show ?thesis
    by (simp add: init_Inr_iff evt_001_def valid_record_def)
qed

section \<open>Registry access\<close>

text \<open>
  C8, as the code has it.  If the remote call under \<open>get_schema\<close> or
  \<open>get_schema_version\<close> fails with a \<open>ClientError\<close> (the error responses of the
  service: not found, permission), the operation fails with one
  \<open>SchemaRegistryException\<close> whose text is the operation's prefix and the text of the
  cause; the class is the same whatever the cause was.
\<close>

theorem client_error_is_wrapped:
  "(glue_get_schema (glue_client c) (registry_name c) n = Inl e \<and> exn_class_of e = ClientError \<longrightarrow>
      get_schema c n = Inl (Exn SchemaRegistryException (''Failed to get schema: '' @ exn_str e))) \<and>
   (glue_get_schema_version (glue_client c) (registry_name c) n v = Inl e' \<and>
      exn_class_of e' = ClientError \<longrightarrow>
      get_schema_version c n v =
        Inl (Exn SchemaRegistryException (''Failed to get schema version: '' @ exn_str e')))"
proof (intro conjI impI)
  assume "glue_get_schema (glue_client c) (registry_name c) n = Inl e \<and> exn_class_of e = ClientError"
  then have "except_ClientError ''Failed to get schema: ''
      (glue_get_schema (glue_client c) (registry_name c) n) =
      Inl (Exn SchemaRegistryException (''Failed to get schema: '' @ exn_str e))"
    by (simp add: except_ClientError_def)
  then show "get_schema c n =
      Inl (Exn SchemaRegistryException (''Failed to get schema: '' @ exn_str e))"
    by (simp add: get_schema_def)
next
  assume "glue_get_schema_version (glue_client c) (registry_name c) n v = Inl e' \<and>
      exn_class_of e' = ClientError"
  then have "except_ClientError ''Failed to get schema version: ''
      (glue_get_schema_version (glue_client c) (registry_name c) n v) =
      Inl (Exn SchemaRegistryException (''Failed to get schema version: '' @ exn_str e'))"
    by (simp add: except_ClientError_def)
  then show "get_schema_version c n v =
      Inl (Exn SchemaRegistryException (''Failed to get schema version: '' @ exn_str e'))"
    by (simp add: get_schema_version_def)
qed

theorem client_error_witness:
  "glue_get_schema (glue_client demo_client) (registry_name demo_client) ''Unknown'' =
     Inl (not_found ''GetSchema'') \<and>
   exn_class_of (not_found ''GetSchema'') = ClientError \<and>
   get_schema demo_client ''Unknown'' =
     Inl (Exn SchemaRegistryException (''Failed to get schema: '' @ exn_str (not_found ''GetSchema''))) \<and>
   glue_get_schema_version (glue_client demo_client) (registry_name demo_client) ''SalesforceAudit'' (PInt 2) =
     Inl (not_found ''GetSchemaVersion'') \<and>
   get_schema_version demo_client ''SalesforceAudit'' (PInt 2) =
     Inl (Exn SchemaRegistryException
       (''Failed to get schema version: '' @ exn_str (not_found ''GetSchemaVersion'')))"
proof -
  have a: "glue_get_schema (glue_client demo_client) (registry_name demo_client) ''Unknown'' =
     Inl (not_found ''GetSchema'')"
    by code_simp
  have b: "glue_get_schema_version (glue_client demo_client) (registry_name demo_client) ''SalesforceAudit'' (PInt 2) =
     Inl (not_found ''GetSchemaVersion'')"
    by code_simp
  have c: "exn_class_of (not_found ''GetSchema'') = ClientError"
    "exn_class_of (not_found ''GetSchemaVersion'') = ClientError"
    by (simp_all add: not_found_def)
  from client_error_is_wrapped [of demo_client "''Unknown''" "not_found ''GetSchema''"
      "PInt 2" "not_found ''GetSchemaVersion''"]
    client_error_is_wrapped [of demo_client "''SalesforceAudit''" "not_found ''GetSchema''"
      "PInt 2" "not_found ''GetSchemaVersion''"]
  show ?thesis using a b c by blast
qed

text \<open>
  C8 as it was stated fails: a failure of the remote call that is not a \<open>ClientError\<close>,
  as when the endpoint cannot be reached, leaves \<open>get_schema\<close> unwrapped.
\<close>

theorem connection_error_counterexample:
  "glue_get_schema (glue_client unreachable_client) (registry_name unreachable_client) ''SalesforceAudit'' =
     Inl connection_error \<and>
   get_schema unreachable_client ''SalesforceAudit'' = Inl connection_error \<and>
   exn_class_of connection_error \<noteq> SchemaRegistryException"
  by (simp add: get_schema_def except_ClientError_def unreachable_client_def connection_error_def)

text \<open>Any other exception of the remote call leaves the operation as it is.\<close>

lemma other_exception_passes:
  "glue_get_schema (glue_client c) (registry_name c) n = Inl e \<Longrightarrow> exn_class_of e \<noteq> ClientError \<Longrightarrow>
     get_schema c n = Inl e"
  "glue_get_schema_version (glue_client c) (registry_name c) n v = Inl e \<Longrightarrow>
     exn_class_of e \<noteq> ClientError \<Longrightarrow> get_schema_version c n v = Inl e"
  by (simp_all add: get_schema_def get_schema_version_def except_ClientError_def)

section \<open>Validity of what deserialize returns\<close>

text \<open>
  C10.  A record returned by the deserialize of either adapter is valid: its timestamp
  is an integer and is not negative.  When the decoded row or object carries a
  timestamp that is not an integer or is negative, and all else went well, the
  operation fails with the \<open>SchemaRegistryException\<close> that wraps the error of the
  record's own validation.
\<close>

theorem deserialized_record_is_valid:
  "(AvroSerializer_deserialize lib c n data = Inr r \<longrightarrow> valid_record r) \<and>
   (JsonSerializer_deserialize lib c n data = Inr r \<longrightarrow> valid_record r) \<and>
   (fetch_schema_definition c n = Inr sd \<and> json_loads lib sd = Inr sj \<and> parse_schema lib sj = Inr sch \<and>
    schemaless_reader lib data sch = Inr row \<and>
    py_getitem row ''eventId'' = Inr eid \<and> py_getitem row ''eventName'' = Inr ename \<and>
    py_getitem row ''timestamp'' = Inr ts \<and> py_getitem row ''eventDetails'' = Inr details \<and>
    \<not> (isinstance_int ts \<and> 0 \<le> int_value ts) \<longrightarrow>
      AvroSerializer_deserialize lib c n data =
        Inl (Exn SchemaRegistryException (''Failed to deserialize SalesforceAudit: '' @
          (if isinstance_int ts then ''timestamp must be non-negative''
           else ''timestamp must be an integer'')))) \<and>
   (fetch_schema_version c n = Inr resp \<and> bytes_decode_utf8 lib data = Inr s \<and>
    json_loads lib (PStr s) = Inr (PDict d) \<and> map_of d ''timestamp'' = Some ts \<and>
    \<not> (isinstance_int ts \<and> 0 \<le> int_value ts) \<longrightarrow>
      JsonSerializer_deserialize lib c n data =
        Inl (Exn SchemaRegistryException (''Failed to deserialize JSON to SalesforceAudit: '' @
          (if isinstance_int ts then ''timestamp must be non-negative''
           else ''timestamp must be an integer''))))"
proof (intro conjI impI)
  assume "AvroSerializer_deserialize lib c n data = Inr r"
  then show "valid_record r"
    by (rule avro_deserialize_valid)
next
  assume "JsonSerializer_deserialize lib c n data = Inr r"
  then show "valid_record r"
    by (rule json_deserialize_valid)
next
  assume a: "fetch_schema_definition c n = Inr sd \<and> json_loads lib sd = Inr sj \<and> parse_schema lib sj = Inr sch \<and>
    schemaless_reader lib data sch = Inr row \<and>
    py_getitem row ''eventId'' = Inr eid \<and> py_getitem row ''eventName'' = Inr ename \<and>
    py_getitem row ''timestamp'' = Inr ts \<and> py_getitem row ''eventDetails'' = Inr details \<and>
    \<not> (isinstance_int ts \<and> 0 \<le> int_value ts)"
  then have "record_of_row row =
      Inl (Exn ValueError (if isinstance_int ts then ''timestamp must be non-negative''
           else ''timestamp must be an integer''))"
    by (auto simp: record_of_row_def init_Inl_cases)
  with a show "AvroSerializer_deserialize lib c n data =
        Inl (Exn SchemaRegistryException (''Failed to deserialize SalesforceAudit: '' @
          (if isinstance_int ts then ''timestamp must be non-negative''
           else ''timestamp must be an integer'')))"
    by (simp add: adapter_eqs except_Exception_Inl)
next
  assume a: "fetch_schema_version c n = Inr resp \<and> bytes_decode_utf8 lib data = Inr s \<and>
    json_loads lib (PStr s) = Inr (PDict d) \<and> map_of d ''timestamp'' = Some ts \<and>
    \<not> (isinstance_int ts \<and> 0 \<le> int_value ts)"
  then have "from_dict (PDict d) =
      Inl (Exn ValueError (if isinstance_int ts then ''timestamp must be non-negative''
           else ''timestamp must be an integer''))"
    by (auto simp: from_dict_PDict init_Inl_cases)
  with a show "JsonSerializer_deserialize lib c n data =
        Inl (Exn SchemaRegistryException (''Failed to deserialize JSON to SalesforceAudit: '' @
          (if isinstance_int ts then ''timestamp must be non-negative''
           else ''timestamp must be an integer'')))"
    by (simp add: adapter_eqs except_Exception_Inl)
qed

theorem deserialized_record_witness:
  \<open>AvroSerializer_deserialize reference_lib demo_client ''SalesforceAudit'' evt_001_row = Inr evt_001 \<and>
   valid_record evt_001 \<and>
   schemaless_reader reference_lib [0, 0, 1, 0] avro_schema_dict =
     Inr (PDict [(''eventId'', PStr []), (''eventName'', PStr []),
                 (''timestamp'', PInt (- 1)), (''eventDetails'', PStr [])]) \<and>
   AvroSerializer_deserialize reference_lib demo_client ''SalesforceAudit'' [0, 0, 1, 0] =
     Inl (Exn SchemaRegistryException
            ''Failed to deserialize SalesforceAudit: timestamp must be non-negative'') \<and>
   json_loads reference_lib (PStr ''{"eventId": "e", "timestamp": "12"}'') =
     Inr (PDict [(''eventId'', PStr ''e''), (''timestamp'', PStr ''12'')]) \<and>
   JsonSerializer_deserialize reference_lib demo_client ''SalesAuditJSON''
       (utf8 ''{"eventId": "e", "timestamp": "12"}'') =
     Inl (Exn SchemaRegistryException
            ''Failed to deserialize JSON to SalesforceAudit: timestamp must be an integer'')\<close>
proof -
  have d: "AvroSerializer_deserialize reference_lib demo_client ''SalesforceAudit'' evt_001_row = Inr evt_001"
    by code_simp
  have rd: "schemaless_reader reference_lib [0, 0, 1, 0] avro_schema_dict =
     Inr (PDict [(''eventId'', PStr []), (''eventName'', PStr []),
                 (''timestamp'', PInt (- 1)), (''eventDetails'', PStr [])])"
    by code_simp
  have b: \<open>bytes_decode_utf8 reference_lib (utf8 ''{"eventId": "e", "timestamp": "12"}'') =
     Inr ''{"eventId": "e", "timestamp": "12"}''\<close>
    by code_simp
  have l: \<open>json_loads reference_lib (PStr ''{"eventId": "e", "timestamp": "12"}'') =
     Inr (PDict [(''eventId'', PStr ''e''), (''timestamp'', PStr ''12'')])\<close>
    by code_simp
  note t1 = deserialized_record_is_valid [where lib = reference_lib and c = demo_client
      and n = "''SalesforceAudit''" and data = evt_001_row and r = evt_001]
  from t1 d have v: "valid_record evt_001" by blast
  have g: "py_getitem (PDict [(''eventId'', PStr []), (''eventName'', PStr []),
                 (''timestamp'', PInt (- 1)), (''eventDetails'', PStr [])]) ''eventId'' = Inr (PStr [])"
    "py_getitem (PDict [(''eventId'', PStr []), (''eventName'', PStr []),
                 (''timestamp'', PInt (- 1)), (''eventDetails'', PStr [])]) ''eventName'' = Inr (PStr [])"
    "py_getitem (PDict [(''eventId'', PStr []), (''eventName'', PStr []),
                 (''timestamp'', PInt (- 1)), (''eventDetails'', PStr [])]) ''timestamp'' = Inr (PInt (- 1))"
    "py_getitem (PDict [(''eventId'', PStr []), (''eventName'', PStr []),
                 (''timestamp'', PInt (- 1)), (''eventDetails'', PStr [])]) ''eventDetails'' = Inr (PStr [])"
    by (simp_all add: dict_getitem_def)
  have neg: "\<not> (isinstance_int (PInt (- 1)) \<and> 0 \<le> int_value (PInt (- 1)))" by simp
  from deserialized_record_is_valid [where lib = reference_lib and c = demo_client
      and n = "''SalesforceAudit''" and data = "[0, 0, 1, 0]"
      and sd = "PStr avro_schema_text" and sj = avro_schema_dict and sch = avro_schema_dict
      and row = "PDict [(''eventId'', PStr []), (''eventName'', PStr []),
                 (''timestamp'', PInt (- 1)), (''eventDetails'', PStr [])]"
      and eid = "PStr []" and ename = "PStr []" and ts = "PInt (- 1)" and details = "PStr []"]
    demo_fetch_avro reference_schema rd g neg
  have a: "AvroSerializer_deserialize reference_lib demo_client ''SalesforceAudit'' [0, 0, 1, 0] =
     Inl (Exn SchemaRegistryException (''Failed to deserialize SalesforceAudit: '' @
          (if isinstance_int (PInt (- 1)) then ''timestamp must be non-negative''
           else ''timestamp must be an integer'')))"
    by blast
  have nonint: "\<not> (isinstance_int (PStr ''12'') \<and> 0 \<le> int_value (PStr ''12''))" by simp
  have tm: "map_of [(''eventId'', PStr ''e''), (''timestamp'', PStr ''12'')] ''timestamp'' = Some (PStr ''12'')"
    by simp
  from deserialized_record_is_valid [where lib = reference_lib and c = demo_client
      and n = "''SalesAuditJSON''" and resp = json_version_response
      and s = \<open>''{"eventId": "e", "timestamp": "12"}''\<close>
      and data = \<open>utf8 ''{"eventId": "e", "timestamp": "12"}''\<close>
      and d = "[(''eventId'', PStr ''e''), (''timestamp'', PStr ''12'')]" and ts = "PStr ''12''"]
    demo_fetch_json b l tm nonint
  have j: \<open>JsonSerializer_deserialize reference_lib demo_client ''SalesAuditJSON''
       (utf8 ''{"eventId": "e", "timestamp": "12"}'') =
     Inl (Exn SchemaRegistryException (''Failed to deserialize JSON to SalesforceAudit: '' @
          (if isinstance_int (PStr ''12'') then ''timestamp must be non-negative''
           else ''timestamp must be an integer'')))\<close>
    by blast
  from d v rd a l j show ?thesis by simp
qed

end
